theory Spec2Isabelle
  imports Main
begin

section \<open>The remote service, as the program sees it\<close>

text \<open>
  The program talks to the Coda API through \<^verbatim>\<open>requests\<close> and writes to the console.
  Both effects are made explicit: a world carries the script of the remote side (the outcome
  of the k-th HTTP request of the run) and the trace of everything the program did so far
  (requests, sleeps, console lines), in order.
\<close>

record item =
  item_id :: string
  item_name :: string

datatype http =
    Respuesta nat "item list"   \<comment> \<open>status code, and the \<^verbatim>\<open>items\<close> of the JSON body\<close>
  | Excepcion                   \<comment> \<open>\<^verbatim>\<open>requests\<close> raised: no response at all\<close>

text \<open>
  A JSON value of a cell. \<open>JFloat n\<close> is the float whose value is the whole number \<open>n\<close>
  (written \<^verbatim>\<open>2024.0\<close>), \<open>JNumber n\<close> the integer \<open>n\<close>.
\<close>

datatype json = JString string | JNumber int | JFloat int | JNull

record celda =
  column :: string
  "value" :: json

type_synonym fila_wire = "celda list"   \<comment> \<open>\<^verbatim>\<open>{"cells": [...]}\<close>\<close>

datatype mensaje =
    Buscando_documento
  | Documento_encontrado string string
  | Buscando_tabla
  | Tabla_encontrada string string
  | Obras_a_sincronizar nat
  | Eliminando_filas
  | Filas_eliminadas nat
  | Error_al_eliminar nat
  | Filas_insertadas nat string
  | Limite_alcanzado nat
  | Error_al_insertar nat

datatype evento =
    Get string
  | Delete string "string list"     \<comment> \<open>url, \<^verbatim>\<open>{"rowIds": [...]}\<close>\<close>
  | Post string "fila_wire list"    \<comment> \<open>url, \<^verbatim>\<open>{"rows": [...]}\<close>\<close>
  | Sleep nat
  | Print mensaje

datatype error =
    ValueError string
  | TypeError
  | HTTPError nat
  | RequestException

record mundo =
  guion :: "nat \<Rightarrow> http"
  enviadas :: nat
  traza :: "evento list"

definition peticion :: "evento \<Rightarrow> mundo \<Rightarrow> http \<times> mundo" where
  "peticion e w =
     (guion w (enviadas w), w\<lparr>enviadas := Suc (enviadas w), traza := traza w @ [e]\<rparr>)"

definition imprimir :: "mensaje \<Rightarrow> mundo \<Rightarrow> mundo" where
  "imprimir m w = w\<lparr>traza := traza w @ [Print m]\<rparr>"

definition sleep :: "nat \<Rightarrow> mundo \<Rightarrow> mundo" where
  "sleep s w = w\<lparr>traza := traza w @ [Sleep s]\<rparr>"

text \<open>\<^verbatim>\<open>r.raise_for_status()\<close> raises for the 4xx and 5xx codes only.\<close>

definition raise_for_status :: "nat \<Rightarrow> bool" where
  "raise_for_status st \<longleftrightarrow> 400 \<le> st \<and> st < 600"

section \<open>Remote locator\<close>

text \<open>The \<^verbatim>\<open>for doc in documentos: if doc["name"] == nombre: return doc["id"]\<close> scan.\<close>

fun buscar_nombre :: "string \<Rightarrow> item list \<Rightarrow> string option" where
  "buscar_nombre nombre [] = None"
| "buscar_nombre nombre (d # ds) =
     (if item_name d = nombre then Some (item_id d) else buscar_nombre nombre ds)"

definition url_docs :: string where
  "url_docs = ''https://coda.io/apis/v1/docs''"

definition url_tables :: "string \<Rightarrow> string" where
  "url_tables doc_id = url_docs @ ''/'' @ doc_id @ ''/tables''"

definition url_rows :: "string \<Rightarrow> string \<Rightarrow> string" where
  "url_rows doc_id table_id = url_tables doc_id @ ''/'' @ table_id @ ''/rows''"

definition msg_documento :: "string \<Rightarrow> string" where
  "msg_documento nombre =
     ''No se encontr'' @ [CHR 0xC3, CHR 0xB3] @ '' el documento con nombre ''
       @ [CHR 0x27] @ nombre @ [CHR 0x27]"

definition msg_tabla :: "string \<Rightarrow> string" where
  "msg_tabla nombre_tabla =
     ''No se encontr'' @ [CHR 0xC3, CHR 0xB3] @ '' la tabla ''
       @ [CHR 0x27] @ nombre_tabla @ [CHR 0x27] @ '' en el documento.''"

definition obtener_documento_id_por_nombre :: "string \<Rightarrow> mundo \<Rightarrow> (error + string) \<times> mundo" where
  "obtener_documento_id_por_nombre nombre w =
     (case peticion (Get url_docs) (imprimir Buscando_documento w) of
        (Excepcion, w1) \<Rightarrow> (Inl RequestException, w1)
      | (Respuesta st documentos, w1) \<Rightarrow>
          if raise_for_status st then (Inl (HTTPError st), w1)
          else (case buscar_nombre nombre documentos of
                  Some i \<Rightarrow> (Inr i, imprimir (Documento_encontrado nombre i) w1)
                | None \<Rightarrow> (Inl (ValueError (msg_documento nombre)), w1)))"

definition obtener_table_id :: "string \<Rightarrow> string \<Rightarrow> mundo \<Rightarrow> (error + string) \<times> mundo" where
  "obtener_table_id doc_id nombre_tabla w =
     (case peticion (Get (url_tables doc_id)) (imprimir Buscando_tabla w) of
        (Excepcion, w1) \<Rightarrow> (Inl RequestException, w1)
      | (Respuesta st tablas, w1) \<Rightarrow>
          if raise_for_status st then (Inl (HTTPError st), w1)
          else (case buscar_nombre nombre_tabla tablas of
                  Some i \<Rightarrow> (Inr i, imprimir (Tabla_encontrada nombre_tabla i) w1)
                | None \<Rightarrow> (Inl (ValueError (msg_tabla nombre_tabla)), w1)))"

section \<open>Purger\<close>

text \<open>
  \<^verbatim>\<open>for i in range(0, len(ids), 50): batch = {"rowIds": ids[i:i+50]}\<close>: one DELETE per
  slice, whatever the status of the previous one.
\<close>

function bucle_eliminar :: "string \<Rightarrow> string list \<Rightarrow> nat \<Rightarrow> mundo \<Rightarrow> (error + unit) \<times> mundo" where
  "bucle_eliminar url ids i w =
     (if i < length ids then
        (let batch = take 50 (drop i ids) in
         case peticion (Delete url batch) w of
           (Excepcion, w1) \<Rightarrow> (Inl RequestException, w1)
         | (Respuesta st _, w1) \<Rightarrow>
             bucle_eliminar url ids (i + 50)
               (imprimir (if st = 202 then Filas_eliminadas (length batch)
                          else Error_al_eliminar st) w1))
      else (Inr (), w))"
  by pat_completeness auto
termination
  by (relation "measure (\<lambda>(url, ids, i, w). length ids - i)") auto

definition eliminar_todas_las_filas :: "string \<Rightarrow> string \<Rightarrow> mundo \<Rightarrow> (error + unit) \<times> mundo" where
  "eliminar_todas_las_filas doc_id table_id w =
     (case peticion (Get (url_rows doc_id table_id)) (imprimir Eliminando_filas w) of
        (Excepcion, w1) \<Rightarrow> (Inl RequestException, w1)
      | (Respuesta st rows, w1) \<Rightarrow>
          if raise_for_status st then (Inl (HTTPError st), w1)
          else bucle_eliminar (url_rows doc_id table_id) (map item_id rows) 0 w1)"

section \<open>Rows and their wire format\<close>

text \<open>
  A cell of the DataFrame holds a string, an integer, a float with a whole value (the year
  column is \<^verbatim>\<open>float64\<close> when it has a \<^verbatim>\<open>NaN\<close>), a timestamp, or a missing value
  (\<^verbatim>\<open>None\<close>, \<^verbatim>\<open>NaN\<close>, \<^verbatim>\<open>NaT\<close>: what \<^verbatim>\<open>dropna\<close> removes). A row handed to the
  inserter is a Python dict, kept as an association list in column order.
\<close>

record fecha =
  year :: nat
  month :: nat
  day :: nat

datatype valor = Texto string | Numero int | Flotante int | Marca fecha | Nulo

type_synonym fila = "(string \<times> valor) list"

fun digitos :: "nat \<Rightarrow> string" where
  "digitos n =
     (if n < 10 then [char_of (48 + n)] else digitos (n div 10) @ [char_of (48 + n mod 10)])"

definition rellenar :: "nat \<Rightarrow> string \<Rightarrow> string" where
  "rellenar k s = replicate (k - length s) (CHR ''0'') @ s"

text \<open>
  \<^verbatim>\<open>val.strftime("%Y-%m-%d")\<close>: month and day are padded to two digits, the year is
  written as it is (a year below 1000 comes out with fewer than four digits).
\<close>

definition strftime :: "fecha \<Rightarrow> string" where
  "strftime d =
     digitos (year d) @ ''-'' @ rellenar 2 (digitos (month d)) @ ''-''
       @ rellenar 2 (digitos (day d))"

definition serializar_valor :: "valor \<Rightarrow> json" where
  "serializar_valor val =
     (case val of
        Marca d \<Rightarrow> JString (strftime d)
      | Texto s \<Rightarrow> JString s
      | Numero n \<Rightarrow> JNumber n
      | Flotante n \<Rightarrow> JFloat n
      | Nulo \<Rightarrow> JNull)"

definition serializar_fila :: "fila \<Rightarrow> fila_wire" where
  "serializar_fila fila =
     map (\<lambda>(col, val). \<lparr>column = col, value = serializar_valor val\<rparr>) fila"

text \<open>\<^verbatim>\<open>row.dropna().to_dict()\<close>\<close>

definition dropna :: "fila \<Rightarrow> fila" where
  "dropna s = filter (\<lambda>(col, val). val \<noteq> Nulo) s"

section \<open>Batch inserter\<close>

definition col_nombre :: string where
  "col_nombre = ''Nombre de la obra''"

text \<open>\<^verbatim>\<open>[f.get("Nombre de la obra", "Sin nombre") for f in batch]\<close>\<close>

definition nombres_de :: "fila list \<Rightarrow> valor list" where
  "nombres_de batch =
     map (\<lambda>f. case map_of f col_nombre of None \<Rightarrow> Texto ''Sin nombre'' | Some v \<Rightarrow> v) batch"

text \<open>\<^verbatim>\<open>', '.join(nombres)\<close> raises \<^verbatim>\<open>TypeError\<close> on an item that is not a string.\<close>

fun textos :: "valor list \<Rightarrow> string list option" where
  "textos [] = Some []"
| "textos (Texto s # vs) = (case textos vs of None \<Rightarrow> None | Some ss \<Rightarrow> Some (s # ss))"
| "textos (_ # vs) = None"

fun join :: "string \<Rightarrow> string list \<Rightarrow> string" where
  "join sep [] = []"
| "join sep [x] = x"
| "join sep (x # y # ys) = x @ sep @ join sep (y # ys)"

text \<open>
  The \<^verbatim>\<open>for intento in range(max_reintentos)\<close> loop over one batch: 202 and every status
  other than 429 leave the loop, 429 sleeps \<^verbatim>\<open>2 ** intento\<close> and goes on to the next
  \<^verbatim>\<open>intento\<close>.
\<close>

function bucle_intentos ::
  "string \<Rightarrow> fila_wire list \<Rightarrow> fila list \<Rightarrow> nat \<Rightarrow> nat \<Rightarrow> mundo \<Rightarrow> (error + unit) \<times> mundo" where
  "bucle_intentos url payload batch max_reintentos intento w =
     (if intento < max_reintentos then
        (case peticion (Post url payload) w of
           (Excepcion, w1) \<Rightarrow> (Inl RequestException, w1)
         | (Respuesta st _, w1) \<Rightarrow>
             if st = 202 then
               (case textos (nombres_de batch) of
                  None \<Rightarrow> (Inl TypeError, w1)
                | Some nombres \<Rightarrow>
                    (Inr (), imprimir (Filas_insertadas (length batch) (join '', '' nombres)) w1))
             else if st = 429 then
               (let espera = 2 ^ intento in
                bucle_intentos url payload batch max_reintentos (Suc intento)
                  (sleep espera (imprimir (Limite_alcanzado espera) w1)))
             else (Inr (), imprimir (Error_al_insertar st) w1))
      else (Inr (), w))"
  by pat_completeness auto
termination
  by (relation "measure (\<lambda>(url, payload, batch, max_reintentos, intento, w).
        max_reintentos - intento)") auto

text \<open>\<^verbatim>\<open>for i in range(0, len(filas), batch_size): batch = filas[i:i+batch_size]\<close>\<close>

function bucle_lotes ::
  "string \<Rightarrow> fila list \<Rightarrow> nat \<Rightarrow> nat \<Rightarrow> nat \<Rightarrow> mundo \<Rightarrow> (error + unit) \<times> mundo" where
  "bucle_lotes url filas batch_size max_reintentos i w =
     (if batch_size \<noteq> 0 \<and> i < length filas then
        (let batch = take batch_size (drop i filas);
             payload = map serializar_fila batch in
         case bucle_intentos url payload batch max_reintentos 0 w of
           (Inl e, w1) \<Rightarrow> (Inl e, w1)
         | (Inr _, w1) \<Rightarrow> bucle_lotes url filas batch_size max_reintentos (i + batch_size) w1)
      else (Inr (), w))"
  by pat_completeness auto
termination
  by (relation "measure (\<lambda>(url, filas, batch_size, max_reintentos, i, w). length filas - i)")
    auto

text \<open>\<^verbatim>\<open>range\<close> with step 0 raises \<^verbatim>\<open>ValueError\<close>.\<close>

definition insertar_filas_en_bloques ::
  "string \<Rightarrow> string \<Rightarrow> fila list \<Rightarrow> nat \<Rightarrow> nat \<Rightarrow> mundo \<Rightarrow> (error + unit) \<times> mundo" where
  "insertar_filas_en_bloques doc_id table_id filas batch_size max_reintentos w =
     (if batch_size = 0 then (Inl (ValueError ''range() arg 3 must not be zero''), w)
      else bucle_lotes (url_rows doc_id table_id) filas batch_size max_reintentos 0 w)"

section \<open>Extractor\<close>

record Proyecto =
  p_id :: int
  p_nombre :: "string option"

record Responsable =
  r_id :: int
  r_nombre :: "string option"
  r_correo :: "string option"

text \<open>
  What is stored in a date column: a date, or text. \<^verbatim>\<open>NULL\<close> is \<open>None\<close>.
\<close>

datatype crudo = Fecha_db fecha | Texto_db string

record Obra =
  o_id :: int
  nombre_obra :: "string option"
  proyecto_id :: "int option"
  estado :: "string option"
  fecha_inicio :: "crudo option"
  fecha_fin :: "crudo option"
  responsable_id :: "int option"
  fase :: "string option"

record base_datos =
  proyectos :: "Proyecto list"
  responsables :: "Responsable list"
  obras :: "Obra list"

text \<open>
  \<^verbatim>\<open>.join(T, cond, isouter=True)\<close>: every left row with each right row that satisfies the
  condition, or once with no right row when none does.
\<close>

definition outer_join :: "('a \<Rightarrow> 'b \<Rightarrow> bool) \<Rightarrow> 'a list \<Rightarrow> 'b list \<Rightarrow> ('a \<times> 'b option) list" where
  "outer_join cond izq der =
     concat (map (\<lambda>l. case filter (cond l) der of
                           [] \<Rightarrow> [(l, None)]
                         | ms \<Rightarrow> map (\<lambda>r. (l, Some r)) ms) izq)"

text \<open>
  A row of the query result, with the two date columns as stored (\<open>'f\<close> is \<open>crudo\<close>) or
  as the \<^verbatim>\<open>Date\<close> type hands them to the program (\<open>'f\<close> is \<open>fecha\<close>).
\<close>

record 'f fila_consulta =
  q_nombre_obra :: "string option"
  q_proyecto :: "string option"
  q_estado :: "string option"
  q_fecha_inicio :: "'f option"
  q_fecha_fin :: "'f option"
  q_responsable :: "string option"
  q_correo :: "string option"
  q_fase :: "string option"

text \<open>A comparison with \<^verbatim>\<open>NULL\<close> is never true, so a null foreign key matches nothing.\<close>

definition consulta :: "base_datos \<Rightarrow> crudo fila_consulta list" where
  "consulta db =
     map (\<lambda>((ob, p), r).
            \<lparr>q_nombre_obra = nombre_obra ob,
             q_proyecto = Option.bind p p_nombre,
             q_estado = estado ob,
             q_fecha_inicio = fecha_inicio ob,
             q_fecha_fin = fecha_fin ob,
             q_responsable = Option.bind r r_nombre,
             q_correo = Option.bind r r_correo,
             q_fase = fase ob\<rparr>)
       (outer_join (\<lambda>(ob, p) r. responsable_id ob = Some (r_id r))
          (outer_join (\<lambda>ob p. proyecto_id ob = Some (p_id p)) (obras db) (proyectos db))
          (responsables db))"

text \<open>
  \<^verbatim>\<open>.all()\<close> fetches the rows, and the \<^verbatim>\<open>Date\<close> type of the two date columns turns
  each stored value into a \<^verbatim>\<open>datetime.date\<close>. Stored text goes through
  \<^verbatim>\<open>date.fromisoformat\<close>, which raises \<^verbatim>\<open>ValueError\<close> on text that is not a date in
  the form \<^verbatim>\<open>YYYY-MM-DD\<close>; nothing in the extractor catches it.
\<close>

definition digito :: "char \<Rightarrow> nat option" where
  "digito c = (let n = (of_char c :: nat) in if 48 \<le> n \<and> n \<le> 57 then Some (n - 48) else None)"

fun valor_digitos :: "nat \<Rightarrow> string \<Rightarrow> nat option" where
  "valor_digitos acc [] = Some acc"
| "valor_digitos acc (c # cs) =
     (case digito c of None \<Rightarrow> None | Some k \<Rightarrow> valor_digitos (10 * acc + k) cs)"

definition bisiesto :: "nat \<Rightarrow> bool" where
  "bisiesto y \<longleftrightarrow> y mod 4 = 0 \<and> (y mod 100 \<noteq> 0 \<or> y mod 400 = 0)"

definition dias_del_mes :: "nat \<Rightarrow> nat \<Rightarrow> nat" where
  "dias_del_mes y m =
     (if m = 2 then (if bisiesto y then 29 else 28)
      else if m = 4 \<or> m = 6 \<or> m = 9 \<or> m = 11 then 30 else 31)"

definition fromisoformat :: "string \<Rightarrow> fecha option" where
  "fromisoformat s =
     (if length s = 10 \<and> s ! 4 = CHR ''-'' \<and> s ! 7 = CHR ''-'' then
        (case (valor_digitos 0 (take 4 s), valor_digitos 0 (take 2 (drop 5 s)),
               valor_digitos 0 (drop 8 s)) of
           (Some y, Some m, Some d) \<Rightarrow>
             if 1 \<le> y \<and> 1 \<le> m \<and> m \<le> 12 \<and> 1 \<le> d \<and> d \<le> dias_del_mes y m
             then Some \<lparr>year = y, month = m, day = d\<rparr> else None
         | _ \<Rightarrow> None)
      else None)"

definition msg_isoformat :: "string \<Rightarrow> string" where
  "msg_isoformat s = ''Invalid isoformat string: '' @ [CHR 0x27] @ s @ [CHR 0x27]"

definition procesar_fecha :: "crudo option \<Rightarrow> error + fecha option" where
  "procesar_fecha v =
     (case v of
        None \<Rightarrow> Inr None
      | Some (Fecha_db d) \<Rightarrow> Inr (Some d)
      | Some (Texto_db s) \<Rightarrow>
          (case fromisoformat s of
             Some d \<Rightarrow> Inr (Some d)
           | None \<Rightarrow> Inl (ValueError (msg_isoformat s))))"

definition procesar_fila :: "crudo fila_consulta \<Rightarrow> error + fecha fila_consulta" where
  "procesar_fila q =
     (case procesar_fecha (q_fecha_inicio q) of
        Inl e \<Rightarrow> Inl e
      | Inr i \<Rightarrow>
          (case procesar_fecha (q_fecha_fin q) of
             Inl e \<Rightarrow> Inl e
           | Inr f \<Rightarrow>
               Inr \<lparr>q_nombre_obra = q_nombre_obra q,
                    q_proyecto = q_proyecto q,
                    q_estado = q_estado q,
                    q_fecha_inicio = i,
                    q_fecha_fin = f,
                    q_responsable = q_responsable q,
                    q_correo = q_correo q,
                    q_fase = q_fase q\<rparr>))"

fun todas :: "crudo fila_consulta list \<Rightarrow> error + fecha fila_consulta list" where
  "todas [] = Inr []"
| "todas (q # qs) =
     (case procesar_fila q of
        Inl e \<Rightarrow> Inl e
      | Inr r \<Rightarrow> (case todas qs of Inl e \<Rightarrow> Inl e | Inr rs \<Rightarrow> Inr (r # rs)))"

text \<open>
  \<^verbatim>\<open>pd.to_datetime(col, errors="coerce")\<close> on a column of dates. Which dates pandas can
  hold as timestamps is not part of this program: \<open>convertir\<close> is the library's conversion
  of one date (it may look at the whole column), \<open>None\<close> where the date does not convert.
  A missing value stays missing, and the column keeps its length.
\<close>

definition to_datetime ::
  "(fecha option list \<Rightarrow> fecha \<Rightarrow> fecha option) \<Rightarrow> fecha option list \<Rightarrow> fecha option list" where
  "to_datetime convertir col =
     map (\<lambda>v. case v of None \<Rightarrow> None | Some d \<Rightarrow> convertir col d) col"

text \<open>
  A value of the year column: \<^verbatim>\<open>.dt.year\<close> is an integer column when no start date is
  missing, and a float column (with \<^verbatim>\<open>NaN\<close> for the missing ones) when one is.
  \<open>Decimal n\<close> is the float whose value is the whole number \<open>n\<close>.
\<close>

datatype numero = Entero int | Decimal int

fun valor_de :: "numero \<Rightarrow> int" where
  "valor_de (Entero n) = n"
| "valor_de (Decimal n) = n"

record fila_df =
  df_nombre_obra :: "string option"
  df_proyecto :: "string option"
  df_estado :: "string option"
  df_fecha_inicio :: "fecha option"
  df_fecha_fin :: "fecha option"
  df_responsable :: "string option"
  df_correo :: "string option"
  df_fase :: "string option"
  df_anio :: "numero option"

definition obtener_obras_orm ::
  "(fecha option list \<Rightarrow> fecha \<Rightarrow> fecha option) \<Rightarrow> base_datos \<Rightarrow> error + fila_df list" where
  "obtener_obras_orm convertir db =
     (case todas (consulta db) of
        Inl e \<Rightarrow> Inl e
      | Inr qs \<Rightarrow>
          Inr (let inicio = to_datetime convertir (map q_fecha_inicio qs);
                   fin = to_datetime convertir (map q_fecha_fin qs);
                   anio = (if None \<in> set inicio
                           then map (map_option (\<lambda>d. Decimal (int (year d)))) inicio
                           else map (map_option (\<lambda>d. Entero (int (year d)))) inicio)
               in map (\<lambda>(q, i, f, a).
                         \<lparr>df_nombre_obra = q_nombre_obra q,
                          df_proyecto = q_proyecto q,
                          df_estado = q_estado q,
                          df_fecha_inicio = i,
                          df_fecha_fin = f,
                          df_responsable = q_responsable q,
                          df_correo = q_correo q,
                          df_fase = q_fase q,
                          df_anio = a\<rparr>)
                    (zip qs (zip inicio (zip fin anio)))))"

section \<open>Orchestrator\<close>

definition col_fecha_fin :: string where
  "col_fecha_fin = ''Fecha de finalizaci'' @ [CHR 0xC3, CHR 0xB3] @ ''n''"

definition col_anio :: string where
  "col_anio = ''A'' @ [CHR 0xC3, CHR 0xB1] @ ''o''"

definition de_texto :: "string option \<Rightarrow> valor" where
  "de_texto v = (case v of None \<Rightarrow> Nulo | Some s \<Rightarrow> Texto s)"

definition de_fecha :: "fecha option \<Rightarrow> valor" where
  "de_fecha v = (case v of None \<Rightarrow> Nulo | Some d \<Rightarrow> Marca d)"

definition de_numero :: "numero option \<Rightarrow> valor" where
  "de_numero v =
     (case v of None \<Rightarrow> Nulo | Some (Entero n) \<Rightarrow> Numero n | Some (Decimal n) \<Rightarrow> Flotante n)"

text \<open>One row of \<^verbatim>\<open>df_obras.iterrows()\<close>: the nine labelled values, in column order.\<close>

definition serie :: "fila_df \<Rightarrow> fila" where
  "serie r =
     [(col_nombre, de_texto (df_nombre_obra r)),
      (''Proyecto'', de_texto (df_proyecto r)),
      (''Estado'', de_texto (df_estado r)),
      (''Fecha de inicio'', de_fecha (df_fecha_inicio r)),
      (col_fecha_fin, de_fecha (df_fecha_fin r)),
      (''Responsable'', de_texto (df_responsable r)),
      (''Correo'', de_texto (df_correo r)),
      (''Fase'', de_texto (df_fase r)),
      (col_anio, de_numero (df_anio r))]"

record config =
  nombre_documento :: string
  nombre_tabla :: string

definition main ::
  "(fecha option list \<Rightarrow> fecha \<Rightarrow> fecha option) \<Rightarrow> config \<Rightarrow> base_datos \<Rightarrow> mundo
     \<Rightarrow> (error + unit) \<times> mundo" where
  "main convertir cfg db w =
     (case obtener_documento_id_por_nombre (nombre_documento cfg) w of
        (Inl e, w1) \<Rightarrow> (Inl e, w1)
      | (Inr doc_id, w1) \<Rightarrow>
          (case obtener_table_id doc_id (nombre_tabla cfg) w1 of
             (Inl e, w2) \<Rightarrow> (Inl e, w2)
           | (Inr table_id, w2) \<Rightarrow>
               (case obtener_obras_orm convertir db of
                  Inl e \<Rightarrow> (Inl e, w2)
                | Inr df_obras \<Rightarrow>
                    (let w3 = imprimir (Obras_a_sincronizar (length df_obras)) w2;
                         filas_dicts = map (\<lambda>row. dropna (serie row)) df_obras
                     in case eliminar_todas_las_filas doc_id table_id w3 of
                          (Inl e, w4) \<Rightarrow> (Inl e, w4)
                        | (Inr _, w4) \<Rightarrow>
                            insertar_filas_en_bloques doc_id table_id filas_dicts 10 5 w4))))"

section \<open>Reading a trace\<close>

text \<open>
  What the properties below say about a run is read off its trace: which events change the
  remote table, which id batches were deleted, which payloads were uploaded, and how long
  the run slept in total.
\<close>

fun es_mutacion :: "evento \<Rightarrow> bool" where
  "es_mutacion (Delete _ _) = True"
| "es_mutacion (Post _ _) = True"
| "es_mutacion _ = False"

fun deletes :: "evento list \<Rightarrow> string list list" where
  "deletes [] = []"
| "deletes (Delete _ ids # es) = ids # deletes es"
| "deletes (_ # es) = deletes es"

fun posts :: "evento list \<Rightarrow> fila_wire list list" where
  "posts [] = []"
| "posts (Post _ rows # es) = rows # posts es"
| "posts (_ # es) = posts es"

fun espera_total :: "evento list \<Rightarrow> nat" where
  "espera_total [] = 0"
| "espera_total (Sleep s # es) = s + espera_total es"
| "espera_total (_ # es) = espera_total es"

definition status_code :: "http \<Rightarrow> nat option" where
  "status_code r = (case r of Respuesta st _ \<Rightarrow> Some st | Excepcion \<Rightarrow> None)"

text \<open>
  The slices \<^verbatim>\<open>xs[i:i+n]\<close> for \<^verbatim>\<open>i in range(0, len(xs), n)\<close>, in order: what both
  batch loops walk through.
\<close>

function lotes :: "nat \<Rightarrow> 'a list \<Rightarrow> 'a list list" where
  "lotes n xs = (if n = 0 \<or> xs = [] then [] else take n xs # lotes n (drop n xs))"
  by pat_completeness auto
termination
  by (relation "measure (\<lambda>(n, xs). length xs)") auto

text \<open>
  A stored date the \<^verbatim>\<open>Date\<close> type can hand over: no value, a date, or text that is a
  date.
\<close>

definition legible :: "crudo option \<Rightarrow> bool" where
  "legible v = (case v of Some (Texto_db s) \<Rightarrow> fromisoformat s \<noteq> None | _ \<Rightarrow> True)"

text \<open>
  A row whose name, when it has one, is a string: the rows for which the console line of an
  accepted batch can be built.
\<close>

definition nombre_es_texto :: "fila \<Rightarrow> bool" where
  "nombre_es_texto f =
     (case map_of f col_nombre of None \<Rightarrow> True | Some (Texto s) \<Rightarrow> True | Some _ \<Rightarrow> False)"

text \<open>What one rate-limited attempt leaves in the trace.\<close>

definition eventos_429 :: "string \<Rightarrow> fila_wire list \<Rightarrow> nat \<Rightarrow> evento list" where
  "eventos_429 url payload intento =
     [Post url payload, Print (Limite_alcanzado (2 ^ intento)), Sleep (2 ^ intento)]"

section \<open>Concrete inputs\<close>

text \<open>
  A small database (one work item with both matches, one with a dangling project id, no
  responsible party and no start date, one with every optional value missing), the same
  database with one more work item whose start date is stored as the text
  \<^verbatim>\<open>not-a-date\<close>, and a stand-in for the library's date conversion that accepts the
  dates of the years 1678 to 2261.
\<close>

definition db_ejemplo :: base_datos where
  "db_ejemplo =
     \<lparr>proyectos = [\<lparr>p_id = 1, p_nombre = Some ''Presa''\<rparr>],
      responsables = [\<lparr>r_id = 7, r_nombre = Some ''Ana'', r_correo = None\<rparr>],
      obras =
        [\<lparr>o_id = 1, nombre_obra = Some ''Zanja'', proyecto_id = Some 1, estado = Some ''Activa'',
          fecha_inicio = Some (Fecha_db \<lparr>year = 2024, month = 3, day = 5\<rparr>), fecha_fin = None,
          responsable_id = Some 7, fase = None\<rparr>,
         \<lparr>o_id = 2, nombre_obra = Some ''Bordo'', proyecto_id = Some 9, estado = None,
          fecha_inicio = None, fecha_fin = None,
          responsable_id = None, fase = Some ''B''\<rparr>,
         \<lparr>o_id = 3, nombre_obra = None, proyecto_id = None, estado = Some ''Pausa'',
          fecha_inicio = None, fecha_fin = None,
          responsable_id = Some 8, fase = None\<rparr>]\<rparr>"


definition convertir_ejemplo :: "fecha option list \<Rightarrow> fecha \<Rightarrow> fecha option" where
  "convertir_ejemplo col d = (if 1678 \<le> year d \<and> year d \<le> 2261 then Some d else None)"

text \<open>A fresh run against a remote side that answers the k-th request with \<open>g k\<close>.\<close>

definition mundo_inicial :: "(nat \<Rightarrow> http) \<Rightarrow> mundo" where
  "mundo_inicial g = \<lparr>guion = g, enviadas = 0, traza = []\<rparr>"

definition items_ejemplo :: "item list" where
  "items_ejemplo =
     [\<lparr>item_id = ''i-1'', item_name = ''obras''\<rparr>,
      \<lparr>item_id = ''i-2'', item_name = ''Obras''\<rparr>,
      \<lparr>item_id = ''i-3'', item_name = ''Obras''\<rparr>]"

text \<open>
  The rows the orchestrator would upload for that database, twelve rows made of four copies
  of them, and a remote side that answers 429 to the first \<open>k\<close> requests and 202 after.
\<close>

definition filas_ejemplo :: "fila list" where
  "filas_ejemplo =
     (case obtener_obras_orm convertir_ejemplo db_ejemplo of
        Inl e \<Rightarrow> []
      | Inr df_obras \<Rightarrow> map (\<lambda>row. dropna (serie row)) df_obras)"

definition filas_12 :: "fila list" where
  "filas_12 = concat (replicate 4 filas_ejemplo)"

definition guion_429_hasta :: "nat \<Rightarrow> nat \<Rightarrow> http" where
  "guion_429_hasta k n = (if n < k then Respuesta 429 [] else Respuesta 202 [])"

text \<open>
  Twenty-five rows to upload, and a remote table of 120 rows whose listing is the first
  answer of the run.
\<close>

definition filas_25 :: "fila list" where
  "filas_25 = replicate 25 [(col_nombre, Texto ''Zanja''), (''Estado'', Texto ''Activa'')]"

definition items_120 :: "item list" where
  "items_120 = map (\<lambda>k. \<lparr>item_id = digitos k, item_name = ''fila''\<rparr>) [0..<120]"

definition guion_listado :: "item list \<Rightarrow> nat \<Rightarrow> http" where
  "guion_listado rows n = (if n = 0 then Respuesta 200 rows else Respuesta 202 [])"

section \<open>Extractor: the outer joins keep every work item\<close>

lemma outer_join_map_fst:
  assumes "\<And>l. l \<in> set izq \<Longrightarrow> length (filter (cond l) der) \<le> 1"
  shows "map fst (outer_join cond izq der) = izq"
  using assms
proof (induction izq)
  case Nil
  show ?case by (simp add: outer_join_def)
next
  case (Cons l izq)
  have one: "length (filter (cond l) der) \<le> 1" using Cons.prems by simp
  have "map fst (case filter (cond l) der of [] \<Rightarrow> [(l, None)] | ms \<Rightarrow> map (\<lambda>r. (l, Some r)) ms) = [l]"
    using one by (cases "filter (cond l) der") auto
  moreover have "map fst (outer_join cond izq der) = izq"
    using Cons by simp
  ultimately show ?case by (simp add: outer_join_def)
qed

lemma filter_key_le_one:
  "distinct (map key xs) \<Longrightarrow> length (filter (\<lambda>x. k = Some (key x)) xs) \<le> 1"
proof (induction xs)
  case Nil
  show ?case by simp
next
  case (Cons x xs)
  show ?case
  proof (cases "k = Some (key x)")
    case True
    then have "filter (\<lambda>y. k = Some (key y)) xs = []"
      using Cons.prems by (auto simp: filter_empty_conv)
    with True show ?thesis by simp
  next
    case False
    with Cons show ?thesis by simp
  qed
qed

lemma consulta_fechas:
  assumes "distinct (map p_id (proyectos db))" and "distinct (map r_id (responsables db))"
  shows "map (\<lambda>q. (q_fecha_inicio q, q_fecha_fin q)) (consulta db)
       = map (\<lambda>ob. (fecha_inicio ob, fecha_fin ob)) (obras db)"
proof -
  let ?j1 = "outer_join (\<lambda>ob p. proyecto_id ob = Some (p_id p)) (obras db) (proyectos db)"
  let ?j2 = "outer_join (\<lambda>(ob, p) r. responsable_id ob = Some (r_id r)) ?j1 (responsables db)"
  have a: "map fst ?j1 = obras db"
    by (rule outer_join_map_fst) (rule filter_key_le_one [OF assms(1)])
  have b: "map fst ?j2 = ?j1"
  proof (rule outer_join_map_fst)
    fix l :: "Obra \<times> Proyecto option"
    show "length (filter ((\<lambda>(ob, p) r. responsable_id ob = Some (r_id r)) l) (responsables db)) \<le> 1"
      using filter_key_le_one [OF assms(2), of "responsable_id (fst l)"]
      by (simp add: split_def)
  qed
  have "map (\<lambda>q. (q_fecha_inicio q, q_fecha_fin q)) (consulta db)
      = map (\<lambda>x. (fecha_inicio (fst (fst x)), fecha_fin (fst (fst x)))) ?j2"
    by (simp add: consulta_def split_def)
  also have "\<dots> = map (\<lambda>ob. (fecha_inicio ob, fecha_fin ob)) (map fst (map fst ?j2))"
    by (simp add: comp_def)
  also have "\<dots> = map (\<lambda>ob. (fecha_inicio ob, fecha_fin ob)) (obras db)"
    by (simp only: a b)
  finally show ?thesis .
qed

lemma consulta_length:
  assumes "distinct (map p_id (proyectos db))" and "distinct (map r_id (responsables db))"
  shows "length (consulta db) = length (obras db)"
  using consulta_fechas [OF assms] by (metis length_map)



lemma procesar_fecha_legible: "legible v \<Longrightarrow> \<exists>d. procesar_fecha v = Inr d"
  by (auto simp: procesar_fecha_def legible_def split: option.splits crudo.splits)




lemma procesar_fila_legible:
  assumes "legible (q_fecha_inicio q)" and "legible (q_fecha_fin q)"
  shows "\<exists>r. procesar_fila q = Inr r"
proof -
  obtain i where i: "procesar_fecha (q_fecha_inicio q) = Inr i"
    using procesar_fecha_legible [OF assms(1)] by blast
  obtain f where f: "procesar_fecha (q_fecha_fin q) = Inr f"
    using procesar_fecha_legible [OF assms(2)] by blast
  show ?thesis by (simp add: procesar_fila_def i f)
qed



lemma todas_length: "todas qs = Inr rs \<Longrightarrow> length rs = length qs"
proof (induction qs arbitrary: rs)
  case Nil
  then show ?case by simp
next
  case (Cons q qs)
  then show ?case by (auto split: sum.splits)
qed


lemma todas_legible:
  "\<forall>q \<in> set qs. legible (q_fecha_inicio q) \<and> legible (q_fecha_fin q) \<Longrightarrow> \<exists>rs. todas qs = Inr rs"
proof (induction qs)
  case Nil
  show ?case by simp
next
  case (Cons q qs)
  then obtain rs where rs: "todas qs = Inr rs" by auto
  obtain r where r: "procesar_fila q = Inr r"
    using procesar_fila_legible [of q] Cons.prems by auto
  show ?case by (simp add: r rs)
qed

lemma obtener_obras_orm_Inr:
  assumes "obtener_obras_orm convertir db = Inr df"
  shows "\<exists>rs. todas (consulta db) = Inr rs \<and> length df = length rs
       \<and> (\<forall>k<length rs. df_fecha_inicio (df ! k) =
             (case q_fecha_inicio (rs ! k) of None \<Rightarrow> None
              | Some d \<Rightarrow> convertir (map q_fecha_inicio rs) d))
       \<and> (\<forall>k<length rs. map_option valor_de (df_anio (df ! k)) =
             map_option (\<lambda>d. int (year d)) (df_fecha_inicio (df ! k)))"
proof -
  from assms obtain rs where rs: "todas (consulta db) = Inr rs"
    by (auto simp: obtener_obras_orm_def split: sum.splits)
  have df: "df = (let inicio = to_datetime convertir (map q_fecha_inicio rs);
                   fin = to_datetime convertir (map q_fecha_fin rs);
                   anio = (if None \<in> set inicio
                           then map (map_option (\<lambda>d. Decimal (int (year d)))) inicio
                           else map (map_option (\<lambda>d. Entero (int (year d)))) inicio)
               in map (\<lambda>(q, i, f, a).
                         \<lparr>df_nombre_obra = q_nombre_obra q,
                          df_proyecto = q_proyecto q,
                          df_estado = q_estado q,
                          df_fecha_inicio = i,
                          df_fecha_fin = f,
                          df_responsable = q_responsable q,
                          df_correo = q_correo q,
                          df_fase = q_fase q,
                          df_anio = a\<rparr>)
                    (zip rs (zip inicio (zip fin anio))))"
    using assms rs by (simp add: obtener_obras_orm_def)
  have len: "length df = length rs"
    by (simp add: df to_datetime_def Let_def)
  have ini: "\<forall>k<length rs. df_fecha_inicio (df ! k) =
             (case q_fecha_inicio (rs ! k) of None \<Rightarrow> None
              | Some d \<Rightarrow> convertir (map q_fecha_inicio rs) d)"
    by (simp add: df to_datetime_def Let_def)
  have an: "\<forall>k<length rs. map_option valor_de (df_anio (df ! k)) =
             map_option (\<lambda>d. int (year d)) (df_fecha_inicio (df ! k))"
    by (simp add: df to_datetime_def Let_def option.map_comp comp_def)
  show ?thesis using rs len ini an by blast
qed

lemma obtener_obras_orm_ejemplo:
  "obtener_obras_orm convertir_ejemplo db_ejemplo =
    Inr [\<lparr>df_nombre_obra = Some ''Zanja'', df_proyecto = Some ''Presa'',
      df_estado = Some ''Activa'',
      df_fecha_inicio = Some \<lparr>year = 2024, month = 3, day = 5\<rparr>,
      df_fecha_fin = None, df_responsable = Some ''Ana'', df_correo = None,
      df_fase = None, df_anio = Some (Decimal 2024)\<rparr>,
     \<lparr>df_nombre_obra = Some ''Bordo'', df_proyecto = None, df_estado = None,
      df_fecha_inicio = None, df_fecha_fin = None, df_responsable = None,
      df_correo = None, df_fase = Some ''B'', df_anio = None\<rparr>,
     \<lparr>df_nombre_obra = None, df_proyecto = None, df_estado = Some ''Pausa'',
      df_fecha_inicio = None, df_fecha_fin = None, df_responsable = None,
      df_correo = None, df_fase = None, df_anio = None\<rparr>]"
  by (simp add: obtener_obras_orm_def consulta_def outer_join_def to_datetime_def
      procesar_fila_def procesar_fecha_def db_ejemplo_def convertir_ejemplo_def Let_def)

text \<open>
  C1. The ids of \<^verbatim>\<open>proyectos\<close> and \<^verbatim>\<open>responsables\<close> are primary keys
  (\<^verbatim>\<open>primary_key=True\<close>), so no two rows of one table share an id. For every such database,
  every sequence of rows the extractor returns has exactly one row per work item, whether
  or not the work item's project id or responsible id is null, dangling or matched; and the
  extractor does return one whenever every stored date is something the \<^verbatim>\<open>Date\<close> type
  hands over.
\<close>

theorem obtener_obras_orm_length:
  assumes "distinct (map p_id (proyectos db))" and "distinct (map r_id (responsables db))"
  shows "(\<forall>df. obtener_obras_orm convertir db = Inr df \<longrightarrow> length df = length (obras db))
       \<and> ((\<forall>ob \<in> set (obras db). legible (fecha_inicio ob) \<and> legible (fecha_fin ob)) \<longrightarrow>
            (\<exists>df. obtener_obras_orm convertir db = Inr df \<and> length df = length (obras db)))"
proof -
  have a: "\<forall>df. obtener_obras_orm convertir db = Inr df \<longrightarrow> length df = length (obras db)"
  proof (intro allI impI)
    fix df assume "obtener_obras_orm convertir db = Inr df"
    then obtain rs where "todas (consulta db) = Inr rs" and "length df = length rs"
      using obtener_obras_orm_Inr by blast
    then show "length df = length (obras db)"
      using todas_length [of "consulta db" rs] consulta_length [OF assms] by simp
  qed
  have b: "(\<forall>ob \<in> set (obras db). legible (fecha_inicio ob) \<and> legible (fecha_fin ob)) \<longrightarrow>
            (\<exists>df. obtener_obras_orm convertir db = Inr df \<and> length df = length (obras db))"
  proof
    assume leg: "\<forall>ob \<in> set (obras db). legible (fecha_inicio ob) \<and> legible (fecha_fin ob)"
    have "\<forall>q \<in> set (consulta db). legible (q_fecha_inicio q) \<and> legible (q_fecha_fin q)"
    proof
      fix q assume "q \<in> set (consulta db)"
      then have "(q_fecha_inicio q, q_fecha_fin q)
          \<in> set (map (\<lambda>q. (q_fecha_inicio q, q_fecha_fin q)) (consulta db))" by force
      then have "(q_fecha_inicio q, q_fecha_fin q)
          \<in> set (map (\<lambda>ob. (fecha_inicio ob, fecha_fin ob)) (obras db))"
        by (simp only: consulta_fechas [OF assms])
      then show "legible (q_fecha_inicio q) \<and> legible (q_fecha_fin q)" using leg by auto
    qed
    then obtain rs where "todas (consulta db) = Inr rs" using todas_legible by blast
    then obtain df where "obtener_obras_orm convertir db = Inr df"
      by (simp add: obtener_obras_orm_def)
    then show "\<exists>df. obtener_obras_orm convertir db = Inr df \<and> length df = length (obras db)"
      using a by blast
  qed
  show ?thesis using a b by blast
qed

theorem obtener_obras_orm_length_witness:
  "distinct (map p_id (proyectos db_ejemplo)) \<and> distinct (map r_id (responsables db_ejemplo))
   \<and> legible (fecha_inicio (obras db_ejemplo ! 0)) \<and> legible (fecha_fin (obras db_ejemplo ! 0))
   \<and> legible (fecha_inicio (obras db_ejemplo ! 1)) \<and> legible (fecha_fin (obras db_ejemplo ! 1))
   \<and> legible (fecha_inicio (obras db_ejemplo ! 2)) \<and> legible (fecha_fin (obras db_ejemplo ! 2))
   \<and> length (obras db_ejemplo) = 3
   \<and> (\<exists>df. obtener_obras_orm convertir_ejemplo db_ejemplo = Inr df \<and> length df = 3)"
proof -
  have d: "distinct (map p_id (proyectos db_ejemplo))" "distinct (map r_id (responsables db_ejemplo))"
    by (simp_all add: db_ejemplo_def)
  have l: "\<forall>ob \<in> set (obras db_ejemplo). legible (fecha_inicio ob) \<and> legible (fecha_fin ob)"
    by (simp add: db_ejemplo_def legible_def)
  have n: "length (obras db_ejemplo) = 3" by (simp add: db_ejemplo_def)
  from obtener_obras_orm_length [OF d, of convertir_ejemplo] l
  have "\<exists>df. obtener_obras_orm convertir_ejemplo db_ejemplo = Inr df
           \<and> length df = length (obras db_ejemplo)" by blast
  then have e: "\<exists>df. obtener_obras_orm convertir_ejemplo db_ejemplo = Inr df \<and> length df = 3"
    by (simp only: n)
  have "legible (fecha_inicio (obras db_ejemplo ! 0)) \<and> legible (fecha_fin (obras db_ejemplo ! 0))
   \<and> legible (fecha_inicio (obras db_ejemplo ! 1)) \<and> legible (fecha_fin (obras db_ejemplo ! 1))
   \<and> legible (fecha_inicio (obras db_ejemplo ! 2)) \<and> legible (fecha_fin (obras db_ejemplo ! 2))"
    by (simp add: db_ejemplo_def legible_def)
  then show ?thesis using d n e by blast
qed

section \<open>Extractor: missing dates, and text that is not a date\<close>






section \<open>Wire format: missing values are left out\<close>

lemma serializar_valor_JNull: "serializar_valor v = JNull \<longleftrightarrow> v = Nulo"
  by (cases v) (simp_all add: serializar_valor_def)

lemma serializar_fila_columns: "map column (serializar_fila s) = map fst s"
  by (simp add: serializar_fila_def split_def comp_def)

lemma serie_columns_distinct: "distinct (map fst (serie r))"
  by (simp add: serie_def col_nombre_def col_fecha_fin_def col_anio_def)

lemma strftime_ejemplo: "strftime \<lparr>year = 2024, month = 3, day = 5\<rparr> = ''2024-03-05''"
  by (simp add: strftime_def rellenar_def char_of_def bit_0)

text \<open>
  C2. The orchestrator hands the inserter \<^verbatim>\<open>row.dropna().to_dict()\<close>, and the inserter
  serialises what it is handed cell by cell. So for every row: no cell of the wire format
  carries a null value; the cells are, in order, the columns whose value is present, one
  cell each (the nine column labels of a DataFrame row are distinct); and a row in which
  only the name and the status are present serialises to exactly those two cells.
\<close>

theorem serializar_fila_dropna_sin_nulos:
  "(\<forall>c \<in> set (serializar_fila (dropna s)). value c \<noteq> JNull)
   \<and> map column (serializar_fila (dropna s)) = map fst (filter (\<lambda>(col, val). val \<noteq> Nulo) s)
   \<and> distinct (map column (serializar_fila (dropna (serie r))))
   \<and> serializar_fila (dropna (serie
         \<lparr>df_nombre_obra = Some n, df_proyecto = None, df_estado = Some e,
          df_fecha_inicio = None, df_fecha_fin = None, df_responsable = None,
          df_correo = None, df_fase = None, df_anio = None\<rparr>))
       = [\<lparr>column = col_nombre, value = JString n\<rparr>, \<lparr>column = ''Estado'', value = JString e\<rparr>]"
proof -
  have a: "\<forall>c \<in> set (serializar_fila (dropna s)). value c \<noteq> JNull"
    by (auto simp: serializar_fila_def dropna_def serializar_valor_JNull)
  have b: "map column (serializar_fila (dropna s)) = map fst (filter (\<lambda>(col, val). val \<noteq> Nulo) s)"
    by (simp add: serializar_fila_columns dropna_def)
  have "distinct (map fst (dropna (serie r)))"
    unfolding dropna_def by (rule distinct_map_filter) (rule serie_columns_distinct)
  then have c: "distinct (map column (serializar_fila (dropna (serie r))))"
    by (simp add: serializar_fila_columns)
  have d: "serializar_fila (dropna (serie
         \<lparr>df_nombre_obra = Some n, df_proyecto = None, df_estado = Some e,
          df_fecha_inicio = None, df_fecha_fin = None, df_responsable = None,
          df_correo = None, df_fase = None, df_anio = None\<rparr>))
       = [\<lparr>column = col_nombre, value = JString n\<rparr>, \<lparr>column = ''Estado'', value = JString e\<rparr>]"
    by (simp add: serializar_fila_def dropna_def serie_def de_texto_def de_fecha_def
        de_numero_def serializar_valor_def)
  show ?thesis using a b c d by blast
qed

theorem serializar_fila_dropna_sin_nulos_witness:
  "serializar_fila (dropna
      [(col_nombre, Texto ''Zanja''), (''Proyecto'', Nulo), (''Estado'', Texto ''Activa''),
       (''Fecha de inicio'', Marca \<lparr>year = 2024, month = 3, day = 5\<rparr>), (col_anio, Numero 2024),
       (''Fase'', Nulo)])
     = [\<lparr>column = col_nombre, value = JString ''Zanja''\<rparr>,
        \<lparr>column = ''Estado'', value = JString ''Activa''\<rparr>,
        \<lparr>column = ''Fecha de inicio'', value = JString ''2024-03-05''\<rparr>,
        \<lparr>column = col_anio, value = JNumber 2024\<rparr>]
   \<and> length (serializar_fila (dropna (serie
         \<lparr>df_nombre_obra = Some ''Bordo'', df_proyecto = None, df_estado = Some ''Pausa'',
          df_fecha_inicio = None, df_fecha_fin = None, df_responsable = None,
          df_correo = None, df_fase = None, df_anio = None\<rparr>))) = 2"
  using serializar_fila_dropna_sin_nulos
    [of "[(col_nombre, Texto ''Zanja''), (''Proyecto'', Nulo), (''Estado'', Texto ''Activa''),
       (''Fecha de inicio'', Marca \<lparr>year = 2024, month = 3, day = 5\<rparr>), (col_anio, Numero 2024),
       (''Fase'', Nulo)]" _ "''Bordo''" "''Pausa''"]
  by (simp add: serializar_fila_def dropna_def serializar_valor_def strftime_ejemplo)

section \<open>Remote locator: first match, or no match\<close>

lemma buscar_nombre_primera:
  "\<forall>x \<in> set antes. item_name x \<noteq> nombre \<Longrightarrow> item_name d = nombre
   \<Longrightarrow> buscar_nombre nombre (antes @ d # despues) = Some (item_id d)"
  by (induction antes) simp_all

lemma buscar_nombre_None:
  "buscar_nombre nombre ds = None \<longleftrightarrow> (\<forall>x \<in> set ds. item_name x \<noteq> nombre)"
  by (induction ds) simp_all

text \<open>
  C10. When the listing holds several items with the target name, both lookups (documents,
  and tables of a document) return the id of the first of them in listing order: an item
  with the target name that has no such item before it decides the result, whatever
  follows it, and the lookup does not fail.
\<close>

theorem localizador_primera_coincidencia:
  assumes "guion w (enviadas w) = Respuesta st (antes @ d # despues)"
    and "\<not> raise_for_status st"
    and "\<forall>x \<in> set antes. item_name x \<noteq> nombre"
    and "item_name d = nombre"
  shows "fst (obtener_documento_id_por_nombre nombre w) = Inr (item_id d)
       \<and> fst (obtener_table_id doc_id nombre w) = Inr (item_id d)"
  using assms(1,2) buscar_nombre_primera [OF assms(3,4), of despues]
  by (simp add: obtener_documento_id_por_nombre_def obtener_table_id_def peticion_def
      imprimir_def)

theorem localizador_primera_coincidencia_witness:
  "fst (obtener_documento_id_por_nombre ''Obras''
          (mundo_inicial (\<lambda>k. Respuesta 200 items_ejemplo))) = Inr ''i-2''
   \<and> fst (obtener_table_id ''d'' ''Obras''
          (mundo_inicial (\<lambda>k. Respuesta 200 items_ejemplo))) = Inr ''i-2''"
  using localizador_primera_coincidencia
    [of "mundo_inicial (\<lambda>k. Respuesta 200 items_ejemplo)" 200
        "[\<lparr>item_id = ''i-1'', item_name = ''obras''\<rparr>]"
        "\<lparr>item_id = ''i-2'', item_name = ''Obras''\<rparr>"
        "[\<lparr>item_id = ''i-3'', item_name = ''Obras''\<rparr>]" "''Obras''" "''d''"]
  by (simp add: mundo_inicial_def items_ejemplo_def raise_for_status_def)

text \<open>
  C7. When the document listing comes back without an item of exactly the configured
  document name, the run ends with the \<^verbatim>\<open>ValueError\<close> of the document lookup (the
  program's not-found error) after one console line and the listing request; when the
  document is found and the table listing has no item of exactly the configured table
  name, it ends with the \<^verbatim>\<open>ValueError\<close> of the table lookup after the two listing
  requests. In both cases no DELETE and no POST was sent.
\<close>

theorem main_nombre_no_encontrado:
  "(guion w (enviadas w) = Respuesta st documentos \<and> \<not> raise_for_status st
      \<and> (\<forall>x \<in> set documentos. item_name x \<noteq> nombre_documento cfg)
    \<longrightarrow> fst (main convertir cfg db w) = Inl (ValueError (msg_documento (nombre_documento cfg)))
        \<and> traza (snd (main convertir cfg db w))
            = traza w @ [Print Buscando_documento, Get url_docs]
        \<and> filter es_mutacion (traza (snd (main convertir cfg db w)))
            = filter es_mutacion (traza w))
   \<and> (guion w (enviadas w) = Respuesta st documentos \<and> \<not> raise_for_status st
      \<and> buscar_nombre (nombre_documento cfg) documentos = Some doc_id
      \<and> guion w (Suc (enviadas w)) = Respuesta st' tablas \<and> \<not> raise_for_status st'
      \<and> (\<forall>x \<in> set tablas. item_name x \<noteq> nombre_tabla cfg)
    \<longrightarrow> fst (main convertir cfg db w) = Inl (ValueError (msg_tabla (nombre_tabla cfg)))
        \<and> traza (snd (main convertir cfg db w))
            = traza w @ [Print Buscando_documento, Get url_docs,
                         Print (Documento_encontrado (nombre_documento cfg) doc_id),
                         Print Buscando_tabla, Get (url_tables doc_id)]
        \<and> filter es_mutacion (traza (snd (main convertir cfg db w)))
            = filter es_mutacion (traza w))"
proof (intro conjI impI)
  assume a: "guion w (enviadas w) = Respuesta st documentos \<and> \<not> raise_for_status st
      \<and> (\<forall>x \<in> set documentos. item_name x \<noteq> nombre_documento cfg)"
  then have n: "buscar_nombre (nombre_documento cfg) documentos = None"
    by (simp add: buscar_nombre_None)
  have r: "obtener_documento_id_por_nombre (nombre_documento cfg) w
        = (Inl (ValueError (msg_documento (nombre_documento cfg))),
           w\<lparr>enviadas := Suc (enviadas w),
             traza := traza w @ [Print Buscando_documento, Get url_docs]\<rparr>)"
    using a n by (simp add: obtener_documento_id_por_nombre_def peticion_def imprimir_def)
  show "fst (main convertir cfg db w) = Inl (ValueError (msg_documento (nombre_documento cfg)))"
    by (simp add: main_def r)
  show t: "traza (snd (main convertir cfg db w)) = traza w @ [Print Buscando_documento, Get url_docs]"
    by (simp add: main_def r)
  show "filter es_mutacion (traza (snd (main convertir cfg db w))) = filter es_mutacion (traza w)"
    by (simp add: t)
next
  assume a: "guion w (enviadas w) = Respuesta st documentos \<and> \<not> raise_for_status st
      \<and> buscar_nombre (nombre_documento cfg) documentos = Some doc_id
      \<and> guion w (Suc (enviadas w)) = Respuesta st' tablas \<and> \<not> raise_for_status st'
      \<and> (\<forall>x \<in> set tablas. item_name x \<noteq> nombre_tabla cfg)"
  then have n: "buscar_nombre (nombre_tabla cfg) tablas = None"
    by (simp add: buscar_nombre_None)
  let ?w1 = "w\<lparr>enviadas := Suc (enviadas w),
             traza := traza w @ [Print Buscando_documento, Get url_docs,
                        Print (Documento_encontrado (nombre_documento cfg) doc_id)]\<rparr>"
  have r1: "obtener_documento_id_por_nombre (nombre_documento cfg) w = (Inr doc_id, ?w1)"
    using a by (simp add: obtener_documento_id_por_nombre_def peticion_def imprimir_def)
  have r2: "obtener_table_id doc_id (nombre_tabla cfg) ?w1
        = (Inl (ValueError (msg_tabla (nombre_tabla cfg))),
           w\<lparr>enviadas := Suc (Suc (enviadas w)),
             traza := traza w @ [Print Buscando_documento, Get url_docs,
                         Print (Documento_encontrado (nombre_documento cfg) doc_id),
                         Print Buscando_tabla, Get (url_tables doc_id)]\<rparr>)"
    using a n by (simp add: obtener_table_id_def peticion_def imprimir_def)
  show "fst (main convertir cfg db w) = Inl (ValueError (msg_tabla (nombre_tabla cfg)))"
    by (simp add: main_def r1 r2)
  show t: "traza (snd (main convertir cfg db w))
            = traza w @ [Print Buscando_documento, Get url_docs,
                         Print (Documento_encontrado (nombre_documento cfg) doc_id),
                         Print Buscando_tabla, Get (url_tables doc_id)]"
    by (simp add: main_def r1 r2)
  show "filter es_mutacion (traza (snd (main convertir cfg db w))) = filter es_mutacion (traza w)"
    by (simp add: t)
qed

theorem main_nombre_no_encontrado_witness:
  "fst (main convertir_ejemplo \<lparr>nombre_documento = ''OBRAS'', nombre_tabla = ''Obras''\<rparr> db_ejemplo
         (mundo_inicial (\<lambda>k. Respuesta 200 items_ejemplo)))
     = Inl (ValueError (msg_documento ''OBRAS''))
   \<and> traza (snd (main convertir_ejemplo \<lparr>nombre_documento = ''OBRAS'', nombre_tabla = ''Obras''\<rparr>
         db_ejemplo (mundo_inicial (\<lambda>k. Respuesta 200 items_ejemplo))))
     = [Print Buscando_documento, Get url_docs]
   \<and> fst (main convertir_ejemplo \<lparr>nombre_documento = ''Obras'', nombre_tabla = ''Tabla''\<rparr> db_ejemplo
         (mundo_inicial (\<lambda>k. Respuesta 200 items_ejemplo)))
     = Inl (ValueError (msg_tabla ''Tabla''))
   \<and> traza (snd (main convertir_ejemplo \<lparr>nombre_documento = ''Obras'', nombre_tabla = ''Tabla''\<rparr>
         db_ejemplo (mundo_inicial (\<lambda>k. Respuesta 200 items_ejemplo))))
     = [Print Buscando_documento, Get url_docs, Print (Documento_encontrado ''Obras'' ''i-2''),
        Print Buscando_tabla, Get (url_tables ''i-2'')]"
  using main_nombre_no_encontrado
    [where w = "mundo_inicial (\<lambda>k. Respuesta 200 items_ejemplo)" and st = 200
       and documentos = items_ejemplo
       and cfg = "\<lparr>nombre_documento = ''OBRAS'', nombre_tabla = ''Obras''\<rparr>"
       and convertir = convertir_ejemplo and db = db_ejemplo]
    main_nombre_no_encontrado
    [where w = "mundo_inicial (\<lambda>k. Respuesta 200 items_ejemplo)" and st = 200
       and documentos = items_ejemplo
       and cfg = "\<lparr>nombre_documento = ''Obras'', nombre_tabla = ''Tabla''\<rparr>"
       and doc_id = "''i-2''" and st' = 200 and tablas = items_ejemplo
       and convertir = convertir_ejemplo and db = db_ejemplo]
  by (simp add: mundo_inicial_def items_ejemplo_def raise_for_status_def)

section \<open>Batch inserter: the attempts on one batch\<close>

text \<open>
  The loops are unfolded one step at a time, by the lemmas below, never by their defining
  equations.
\<close>

declare bucle_intentos.simps [simp del] bucle_lotes.simps [simp del] bucle_eliminar.simps [simp del]

lemma status_code_Some: "status_code r = Some st \<longleftrightarrow> (\<exists>b. r = Respuesta st b)"
  by (cases r) (auto simp: status_code_def)

lemma bucle_intentos_fin:
  "\<not> intento < max_reintentos \<Longrightarrow> bucle_intentos url payload batch max_reintentos intento w = (Inr (), w)"
  by (subst bucle_intentos.simps) simp

lemma bucle_intentos_429:
  assumes "intento < max_reintentos" and "status_code (guion w (enviadas w)) = Some 429"
  shows "bucle_intentos url payload batch max_reintentos intento w =
         bucle_intentos url payload batch max_reintentos (Suc intento)
           (w\<lparr>enviadas := Suc (enviadas w),
              traza := traza w @ [Post url payload, Print (Limite_alcanzado (2 ^ intento)),
                                  Sleep (2 ^ intento)]\<rparr>)"
proof -
  from assms(2) obtain b where "guion w (enviadas w) = Respuesta 429 b"
    by (auto simp: status_code_Some)
  then show ?thesis
    using assms(1)
    by (subst bucle_intentos.simps) (simp add: peticion_def imprimir_def sleep_def Let_def)
qed

lemma bucle_intentos_202:
  assumes "intento < max_reintentos" and "status_code (guion w (enviadas w)) = Some 202"
    and "textos (nombres_de batch) = Some nombres"
  shows "bucle_intentos url payload batch max_reintentos intento w =
         (Inr (), w\<lparr>enviadas := Suc (enviadas w),
                    traza := traza w @ [Post url payload,
                      Print (Filas_insertadas (length batch) (join '', '' nombres))]\<rparr>)"
proof -
  from assms(2) obtain b where "guion w (enviadas w) = Respuesta 202 b"
    by (auto simp: status_code_Some)
  then show ?thesis
    using assms(1,3)
    by (subst bucle_intentos.simps) (simp add: peticion_def imprimir_def)
qed

lemma bucle_lotes_paso:
  assumes "batch_size \<noteq> 0" and "i < length filas"
  shows "bucle_lotes url filas batch_size max_reintentos i w =
     (case bucle_intentos url (map serializar_fila (take batch_size (drop i filas)))
             (take batch_size (drop i filas)) max_reintentos 0 w of
        (Inl e, w1) \<Rightarrow> (Inl e, w1)
      | (Inr _, w1) \<Rightarrow> bucle_lotes url filas batch_size max_reintentos (i + batch_size) w1)"
  using assms by (subst bucle_lotes.simps) (simp add: Let_def)

lemma bucle_lotes_fin:
  "\<not> (batch_size \<noteq> 0 \<and> i < length filas) \<Longrightarrow>
   bucle_lotes url filas batch_size max_reintentos i w = (Inr (), w)"
  by (subst bucle_lotes.simps) auto

lemma bucle_intentos_Excepcion:
  assumes "intento < max_reintentos" and "guion w (enviadas w) = Excepcion"
  shows "bucle_intentos url payload batch max_reintentos intento w =
         (Inl RequestException,
          w\<lparr>enviadas := Suc (enviadas w), traza := traza w @ [Post url payload]\<rparr>)"
  using assms by (subst bucle_intentos.simps) (simp add: peticion_def)

lemma bucle_intentos_202_TypeError:
  assumes "intento < max_reintentos" and "guion w (enviadas w) = Respuesta 202 b"
    and "textos (nombres_de batch) = None"
  shows "bucle_intentos url payload batch max_reintentos intento w =
         (Inl TypeError,
          w\<lparr>enviadas := Suc (enviadas w), traza := traza w @ [Post url payload]\<rparr>)"
  using assms by (subst bucle_intentos.simps) (simp add: peticion_def)

lemma bucle_intentos_otro:
  assumes "intento < max_reintentos" and "guion w (enviadas w) = Respuesta st b"
    and "st \<noteq> 202" and "st \<noteq> 429"
  shows "bucle_intentos url payload batch max_reintentos intento w =
         (Inr (), w\<lparr>enviadas := Suc (enviadas w),
                    traza := traza w @ [Post url payload, Print (Error_al_insertar st)]\<rparr>)"
  using assms by (subst bucle_intentos.simps) (simp add: peticion_def imprimir_def)

lemma bucle_intentos_429s:
  assumes "\<forall>j<k. status_code (guion w (enviadas w + j)) = Some 429"
    and "intento + k \<le> max_reintentos"
  shows "bucle_intentos url payload batch max_reintentos intento w =
         bucle_intentos url payload batch max_reintentos (intento + k)
           (w\<lparr>enviadas := enviadas w + k,
              traza := traza w @ concat (map (\<lambda>j. eventos_429 url payload (intento + j)) [0..<k])\<rparr>)"
  using assms
proof (induction k)
  case 0
  show ?case by simp
next
  case (Suc k)
  let ?wk = "w\<lparr>enviadas := enviadas w + k,
              traza := traza w @ concat (map (\<lambda>j. eventos_429 url payload (intento + j)) [0..<k])\<rparr>"
  have "bucle_intentos url payload batch max_reintentos intento w =
        bucle_intentos url payload batch max_reintentos (intento + k) ?wk"
    using Suc by simp
  also have "\<dots> = bucle_intentos url payload batch max_reintentos (Suc (intento + k))
      (?wk\<lparr>enviadas := Suc (enviadas ?wk),
            traza := traza ?wk @ [Post url payload, Print (Limite_alcanzado (2 ^ (intento + k))),
                                  Sleep (2 ^ (intento + k))]\<rparr>)"
    using Suc.prems by (intro bucle_intentos_429) simp_all
  finally show ?case by (simp add: eventos_429_def)
qed

lemma espera_total_append: "espera_total (xs @ ys) = espera_total xs + espera_total ys"
  by (induction xs rule: espera_total.induct) simp_all

lemma posts_append: "posts (xs @ ys) = posts xs @ posts ys"
  by (induction xs rule: posts.induct) simp_all

lemma deletes_append: "deletes (xs @ ys) = deletes xs @ deletes ys"
  by (induction xs rule: deletes.induct) simp_all

lemma insertar_defecto:
  "insertar_filas_en_bloques doc_id table_id filas 10 5 w
     = bucle_lotes (url_rows doc_id table_id) filas 10 5 0 w"
  by (simp add: insertar_filas_en_bloques_def)

lemma filas_ejemplo_val:
  "filas_ejemplo =
    [[(col_nombre, Texto ''Zanja''), (''Proyecto'', Texto ''Presa''), (''Estado'', Texto ''Activa''),
      (''Fecha de inicio'', Marca \<lparr>year = 2024, month = 3, day = 5\<rparr>),
      (''Responsable'', Texto ''Ana''), (col_anio, Flotante 2024)],
     [(col_nombre, Texto ''Bordo''), (''Fase'', Texto ''B'')],
     [(''Estado'', Texto ''Pausa'')]]"
  by (simp add: filas_ejemplo_def obtener_obras_orm_ejemplo serie_def dropna_def
      de_texto_def de_fecha_def de_numero_def)

lemma textos_filas_ejemplo:
  "textos (nombres_de filas_ejemplo) = Some [''Zanja'', ''Bordo'', ''Sin nombre'']"
  by (simp add: filas_ejemplo_val nombres_de_def col_nombre_def)

lemma bucle_intentos_agotado:
  assumes "\<forall>j<m. status_code (guion w (enviadas w + j)) = Some 429"
  shows "bucle_intentos url payload batch m 0 w =
         (Inr (), w\<lparr>enviadas := enviadas w + m,
                    traza := traza w @ concat (map (eventos_429 url payload) [0..<m])\<rparr>)"
proof -
  have "bucle_intentos url payload batch m 0 w =
        bucle_intentos url payload batch m (0 + m)
           (w\<lparr>enviadas := enviadas w + m,
              traza := traza w @ concat (map (\<lambda>j. eventos_429 url payload (0 + j)) [0..<m])\<rparr>)"
    by (rule bucle_intentos_429s) (use assms in simp_all)
  then show ?thesis by (simp add: bucle_intentos_fin)
qed

lemma filas_12_val:
  "length filas_12 = 12"
  "take 10 (drop 10 filas_12) = [[(col_nombre, Texto ''Bordo''), (''Fase'', Texto ''B'')],
     [(''Estado'', Texto ''Pausa'')]]"
  by (simp_all add: filas_12_def filas_ejemplo_val numeral_eq_Suc)

text \<open>
  C3. A batch whose upload is answered 429 on attempts 0, 1 and 2 and 202 on attempt 3 is
  accepted: the same payload is posted four times, the program sleeps 1, 2 and 4 time units
  after the three rate-limited attempts (7 in total), prints the line of the accepted
  batch, and the run goes on with the next batch.
\<close>

theorem bucle_intentos_429_429_429_202:
  assumes "\<forall>j<3. status_code (guion w (enviadas w + j)) = Some 429"
    and "status_code (guion w (enviadas w + 3)) = Some 202"
    and "batch_size \<noteq> 0" and "i < length filas"
    and "batch = take batch_size (drop i filas)"
    and "payload = map serializar_fila batch"
    and "textos (nombres_de batch) = Some nombres"
    and "w' = w\<lparr>enviadas := enviadas w + 4,
                 traza := traza w @
                   [Post url payload, Print (Limite_alcanzado 1), Sleep 1,
                    Post url payload, Print (Limite_alcanzado 2), Sleep 2,
                    Post url payload, Print (Limite_alcanzado 4), Sleep 4,
                    Post url payload,
                    Print (Filas_insertadas (length batch) (join '', '' nombres))]\<rparr>"
  shows "bucle_intentos url payload batch 5 0 w = (Inr (), w')
       \<and> bucle_lotes url filas batch_size 5 i w = bucle_lotes url filas batch_size 5 (i + batch_size) w'
       \<and> espera_total (traza w') = espera_total (traza w) + (1 + 2 + 4)"
proof -
  let ?w3 = "w\<lparr>enviadas := enviadas w + 3,
               traza := traza w @ concat (map (\<lambda>j. eventos_429 url payload (0 + j)) [0..<3])\<rparr>"
  have ev: "concat (map (eventos_429 url payload) [0..<3]) =
            [Post url payload, Print (Limite_alcanzado 1), Sleep 1,
             Post url payload, Print (Limite_alcanzado 2), Sleep 2,
             Post url payload, Print (Limite_alcanzado 4), Sleep 4]"
    by (simp add: eventos_429_def upt_rec)
  have s0: "bucle_intentos url payload batch 5 0 w = bucle_intentos url payload batch 5 (0 + 3) ?w3"
    by (rule bucle_intentos_429s) (use assms(1) in simp_all)
  have s3: "bucle_intentos url payload batch 5 (0 + 3) ?w3 = (Inr (), w')"
    using bucle_intentos_202 [of "0 + 3" 5 ?w3 batch nombres url payload] assms(2,7)
    by (simp add: assms(8) ev)
  have r: "bucle_intentos url payload batch 5 0 w = (Inr (), w')"
    by (simp only: s0 s3)
  have l: "bucle_lotes url filas batch_size 5 i w = bucle_lotes url filas batch_size 5 (i + batch_size) w'"
    using r assms(3-6) by (simp add: bucle_lotes_paso)
  have e: "espera_total (traza w') = espera_total (traza w) + (1 + 2 + 4)"
    by (simp add: assms(8) espera_total_append)
  show ?thesis using r l e by blast
qed

theorem bucle_intentos_429_429_429_202_witness:
  "insertar_filas_en_bloques ''d'' ''t'' filas_ejemplo 10 5 (mundo_inicial (guion_429_hasta 3))
     = (Inr (),
        \<lparr>guion = guion_429_hasta 3, enviadas = 4,
         traza =
           [Post (url_rows ''d'' ''t'') (map serializar_fila filas_ejemplo),
            Print (Limite_alcanzado 1), Sleep 1,
            Post (url_rows ''d'' ''t'') (map serializar_fila filas_ejemplo),
            Print (Limite_alcanzado 2), Sleep 2,
            Post (url_rows ''d'' ''t'') (map serializar_fila filas_ejemplo),
            Print (Limite_alcanzado 4), Sleep 4,
            Post (url_rows ''d'' ''t'') (map serializar_fila filas_ejemplo),
            Print (Filas_insertadas 3 ''Zanja, Bordo, Sin nombre'')]\<rparr>)
   \<and> espera_total
        [Post (url_rows ''d'' ''t'') (map serializar_fila filas_ejemplo),
         Print (Limite_alcanzado 1), Sleep 1,
         Post (url_rows ''d'' ''t'') (map serializar_fila filas_ejemplo),
         Print (Limite_alcanzado 2), Sleep 2,
         Post (url_rows ''d'' ''t'') (map serializar_fila filas_ejemplo),
         Print (Limite_alcanzado 4), Sleep 4,
         Post (url_rows ''d'' ''t'') (map serializar_fila filas_ejemplo),
         Print (Filas_insertadas 3 ''Zanja, Bordo, Sin nombre'')] = 7"
proof -
  have len: "length filas_ejemplo = 3" by (simp add: filas_ejemplo_val)
  show ?thesis
    using bucle_intentos_429_429_429_202
      [where w = "mundo_inicial (guion_429_hasta 3)" and batch_size = 10 and i = 0
         and filas = filas_ejemplo and batch = filas_ejemplo
         and payload = "map serializar_fila filas_ejemplo"
         and nombres = "[''Zanja'', ''Bordo'', ''Sin nombre'']"
         and url = "url_rows ''d'' ''t''", OF _ _ _ _ _ refl _ refl]
    by (simp add: insertar_defecto len textos_filas_ejemplo mundo_inicial_def
        guion_429_hasta_def status_code_def bucle_lotes_fin)
qed

text \<open>
  C9. The sleep comes before the loop looks at the attempt counter again. A batch answered
  429 on all five attempts is posted five times and the program sleeps after each of them,
  the fifth included: 1, 2, 4, 8 and then 16 time units after the last attempt, 31 in total,
  and the last thing it does for the batch is that sleep of \<open>2 ^ 4\<close>.
\<close>

theorem bucle_intentos_cinco_429:
  assumes "\<forall>j<5. status_code (guion w (enviadas w + j)) = Some 429"
    and "w' = w\<lparr>enviadas := enviadas w + 5,
                 traza := traza w @
                   [Post url payload, Print (Limite_alcanzado 1), Sleep 1,
                    Post url payload, Print (Limite_alcanzado 2), Sleep 2,
                    Post url payload, Print (Limite_alcanzado 4), Sleep 4,
                    Post url payload, Print (Limite_alcanzado 8), Sleep 8,
                    Post url payload, Print (Limite_alcanzado 16), Sleep 16]\<rparr>"
  shows "bucle_intentos url payload batch 5 0 w = (Inr (), w')
       \<and> espera_total (traza w') = espera_total (traza w) + (1 + 2 + 4 + 8 + 16)
       \<and> last (traza w') = Sleep (2 ^ 4)"
proof -
  let ?w5 = "w\<lparr>enviadas := enviadas w + 5,
               traza := traza w @ concat (map (\<lambda>j. eventos_429 url payload (0 + j)) [0..<5])\<rparr>"
  have ev: "concat (map (eventos_429 url payload) [0..<5]) =
            [Post url payload, Print (Limite_alcanzado 1), Sleep 1,
             Post url payload, Print (Limite_alcanzado 2), Sleep 2,
             Post url payload, Print (Limite_alcanzado 4), Sleep 4,
             Post url payload, Print (Limite_alcanzado 8), Sleep 8,
             Post url payload, Print (Limite_alcanzado 16), Sleep 16]"
    by (simp add: eventos_429_def upt_rec)
  have s0: "bucle_intentos url payload batch 5 0 w = bucle_intentos url payload batch 5 (0 + 5) ?w5"
    by (rule bucle_intentos_429s) (use assms(1) in simp_all)
  have s5: "bucle_intentos url payload batch 5 (0 + 5) ?w5 = (Inr (), w')"
    by (simp add: bucle_intentos_fin assms(2) ev)
  have r: "bucle_intentos url payload batch 5 0 w = (Inr (), w')"
    by (simp only: s0 s5)
  have e: "espera_total (traza w') = espera_total (traza w) + (1 + 2 + 4 + 8 + 16)"
    by (simp add: assms(2) espera_total_append)
  have l: "last (traza w') = Sleep (2 ^ 4)"
    by (simp add: assms(2))
  show ?thesis using r e l by blast
qed

theorem bucle_intentos_cinco_429_witness:
  "insertar_filas_en_bloques ''d'' ''t'' filas_ejemplo 10 5 (mundo_inicial (guion_429_hasta 5))
     = (Inr (),
        \<lparr>guion = guion_429_hasta 5, enviadas = 5,
         traza =
           [Post (url_rows ''d'' ''t'') (map serializar_fila filas_ejemplo),
            Print (Limite_alcanzado 1), Sleep 1,
            Post (url_rows ''d'' ''t'') (map serializar_fila filas_ejemplo),
            Print (Limite_alcanzado 2), Sleep 2,
            Post (url_rows ''d'' ''t'') (map serializar_fila filas_ejemplo),
            Print (Limite_alcanzado 4), Sleep 4,
            Post (url_rows ''d'' ''t'') (map serializar_fila filas_ejemplo),
            Print (Limite_alcanzado 8), Sleep 8,
            Post (url_rows ''d'' ''t'') (map serializar_fila filas_ejemplo),
            Print (Limite_alcanzado 16), Sleep 16]\<rparr>)
   \<and> espera_total
        [Post (url_rows ''d'' ''t'') (map serializar_fila filas_ejemplo),
         Print (Limite_alcanzado 1), Sleep 1,
         Post (url_rows ''d'' ''t'') (map serializar_fila filas_ejemplo),
         Print (Limite_alcanzado 2), Sleep 2,
         Post (url_rows ''d'' ''t'') (map serializar_fila filas_ejemplo),
         Print (Limite_alcanzado 4), Sleep 4,
         Post (url_rows ''d'' ''t'') (map serializar_fila filas_ejemplo),
         Print (Limite_alcanzado 8), Sleep 8,
         Post (url_rows ''d'' ''t'') (map serializar_fila filas_ejemplo),
         Print (Limite_alcanzado 16), Sleep 16] = 31"
proof -
  have len: "length filas_ejemplo = 3" by (simp add: filas_ejemplo_val)
  show ?thesis
    using bucle_intentos_cinco_429
      [where w = "mundo_inicial (guion_429_hasta 5)"
         and payload = "map serializar_fila filas_ejemplo"
         and batch = filas_ejemplo
         and url = "url_rows ''d'' ''t''", OF _ refl]
    by (simp add: insertar_defecto len mundo_inicial_def guion_429_hasta_def status_code_def
        bucle_lotes_paso bucle_lotes_fin)
qed

section \<open>Batch inserter: the run goes on after an abandoned batch\<close>

lemma bucle_intentos_traza:
  "\<exists>evs. traza (snd (bucle_intentos url payload batch m intento w)) = traza w @ evs"
proof (induction "m - intento" arbitrary: intento w)
  case 0
  then show ?case by (simp add: bucle_intentos_fin)
next
  case (Suc d)
  then have lt: "intento < m" by simp
  show ?case
  proof (cases "guion w (enviadas w)")
    case Excepcion
    then show ?thesis using lt by (simp add: bucle_intentos_Excepcion)
  next
    case (Respuesta st b)
    consider "st = 202" | "st = 429" | "st \<noteq> 202" "st \<noteq> 429" by blast
    then show ?thesis
    proof cases
      case 1
      show ?thesis
      proof (cases "textos (nombres_de batch)")
        case None
        then show ?thesis using lt Respuesta 1 by (simp add: bucle_intentos_202_TypeError)
      next
        case (Some ns)
        then show ?thesis using lt Respuesta 1
          by (simp add: bucle_intentos_202 status_code_Some)
      qed
    next
      case 2
      let ?w1 = "w\<lparr>enviadas := Suc (enviadas w),
              traza := traza w @ [Post url payload, Print (Limite_alcanzado (2 ^ intento)),
                                  Sleep (2 ^ intento)]\<rparr>"
      have st: "bucle_intentos url payload batch m intento w =
                bucle_intentos url payload batch m (Suc intento) ?w1"
        using lt Respuesta 2 by (intro bucle_intentos_429) (simp_all add: status_code_Some)
      have "d = m - Suc intento" using Suc(2) by simp
      from Suc(1) [OF this, of ?w1]
      obtain evs where "traza (snd (bucle_intentos url payload batch m (Suc intento) ?w1))
                        = traza ?w1 @ evs" by blast
      then show ?thesis by (simp add: st)
    next
      case 3
      then show ?thesis using lt Respuesta by (simp add: bucle_intentos_otro)
    qed
  qed
qed

lemma bucle_intentos_primer_post:
  assumes "intento < m"
  shows "\<exists>evs. traza (snd (bucle_intentos url payload batch m intento w))
               = traza w @ Post url payload # evs"
proof (cases "guion w (enviadas w)")
  case Excepcion
  then show ?thesis using assms by (simp add: bucle_intentos_Excepcion)
next
  case (Respuesta st b)
  consider "st = 202" | "st = 429" | "st \<noteq> 202" "st \<noteq> 429" by blast
  then show ?thesis
  proof cases
    case 1
    show ?thesis
    proof (cases "textos (nombres_de batch)")
      case None
      then show ?thesis using assms Respuesta 1 by (simp add: bucle_intentos_202_TypeError)
    next
      case (Some ns)
      then show ?thesis using assms Respuesta 1
        by (simp add: bucle_intentos_202 status_code_Some)
    qed
  next
    case 2
    let ?w1 = "w\<lparr>enviadas := Suc (enviadas w),
            traza := traza w @ [Post url payload, Print (Limite_alcanzado (2 ^ intento)),
                                Sleep (2 ^ intento)]\<rparr>"
    have st: "bucle_intentos url payload batch m intento w =
              bucle_intentos url payload batch m (Suc intento) ?w1"
      using assms Respuesta 2 by (intro bucle_intentos_429) (simp_all add: status_code_Some)
    obtain evs where "traza (snd (bucle_intentos url payload batch m (Suc intento) ?w1))
                      = traza ?w1 @ evs"
      using bucle_intentos_traza by blast
    then show ?thesis by (simp add: st)
  next
    case 3
    then show ?thesis using assms Respuesta by (simp add: bucle_intentos_otro)
  qed
qed

lemma bucle_lotes_traza:
  "\<exists>evs. traza (snd (bucle_lotes url filas bs m i w)) = traza w @ evs"
proof (induction "length filas - i" arbitrary: i w rule: less_induct)
  case less
  show ?case
  proof (cases "bs \<noteq> 0 \<and> i < length filas")
    case False
    then show ?thesis by (simp add: bucle_lotes_fin)
  next
    case True
    let ?batch = "take bs (drop i filas)"
    obtain r w1 where r: "bucle_intentos url (map serializar_fila ?batch) ?batch m 0 w = (r, w1)"
      by (cases "bucle_intentos url (map serializar_fila ?batch) ?batch m 0 w")
    obtain evs where evs: "traza w1 = traza w @ evs"
      using bucle_intentos_traza [of url "map serializar_fila ?batch" ?batch m 0 w] r by auto
    show ?thesis
    proof (cases r)
      case (Inl e)
      then show ?thesis using True r evs by (simp add: bucle_lotes_paso)
    next
      case (Inr u)
      have "length filas - (i + bs) < length filas - i" using True by arith
      from less [OF this, of w1]
      obtain evs' where "traza (snd (bucle_lotes url filas bs m (i + bs) w1)) = traza w1 @ evs'"
        by blast
      then show ?thesis using True r Inr evs by (simp add: bucle_lotes_paso)
    qed
  qed
qed

lemma bucle_lotes_primer_post:
  assumes "bs \<noteq> 0" and "i < length filas" and "0 < m"
  shows "\<exists>evs. traza (snd (bucle_lotes url filas bs m i w))
               = traza w @ Post url (map serializar_fila (take bs (drop i filas))) # evs"
proof -
  let ?batch = "take bs (drop i filas)"
  obtain r w1 where r: "bucle_intentos url (map serializar_fila ?batch) ?batch m 0 w = (r, w1)"
    by (cases "bucle_intentos url (map serializar_fila ?batch) ?batch m 0 w")
  obtain evs where evs: "traza w1 = traza w @ Post url (map serializar_fila ?batch) # evs"
    using bucle_intentos_primer_post [OF assms(3), of url "map serializar_fila ?batch" ?batch w] r
    by auto
  show ?thesis
  proof (cases r)
    case (Inl e)
    then show ?thesis using assms r evs by (simp add: bucle_lotes_paso)
  next
    case (Inr u)
    obtain evs' where "traza (snd (bucle_lotes url filas bs m (i + bs) w1)) = traza w1 @ evs'"
      using bucle_lotes_traza by blast
    then show ?thesis using assms r Inr evs by (simp add: bucle_lotes_paso)
  qed
qed

lemma bucle_lotes_todos_enviados:
  assumes "fst (bucle_lotes url filas bs m i w) = Inr ()" and "bs \<noteq> 0" and "0 < m"
    and "i + bs * j < length filas"
  shows "Post url (map serializar_fila (take bs (drop (i + bs * j) filas)))
           \<in> set (traza (snd (bucle_lotes url filas bs m i w)))"
  using assms
proof (induction j arbitrary: i w)
  case 0
  then have "i < length filas" by simp
  from bucle_lotes_primer_post [OF "0.prems"(2) this "0.prems"(3), of url w]
  show ?case by auto
next
  case (Suc j)
  then have i: "i < length filas" by simp
  let ?batch = "take bs (drop i filas)"
  obtain r w1 where r: "bucle_intentos url (map serializar_fila ?batch) ?batch m 0 w = (r, w1)"
    by (cases "bucle_intentos url (map serializar_fila ?batch) ?batch m 0 w")
  show ?case
  proof (cases r)
    case (Inl e)
    then show ?thesis using Suc.prems(1,2) i r by (simp add: bucle_lotes_paso)
  next
    case (Inr u)
    have eq: "bucle_lotes url filas bs m i w = bucle_lotes url filas bs m (i + bs) w1"
      using Suc.prems(2) i r Inr by (simp add: bucle_lotes_paso)
    have "i + bs + bs * j < length filas" using Suc.prems(4) by (simp add: algebra_simps)
    from Suc.IH [OF _ Suc.prems(2,3) this, of w1] Suc.prems(1) eq
    show ?thesis by (simp add: algebra_simps)
  qed
qed

text \<open>
  C4. A batch answered 429 on all five attempts is given up without an error: the attempts
  on it return normally after five posts of its payload, and the run continues with the
  next batch exactly as the loop would from there. When there is a next batch, its upload
  is the next thing in the trace; and when the run as a whole returns normally, the upload
  of every batch is in the trace.
\<close>

theorem bucle_lotes_lote_abandonado:
  assumes "\<forall>j<5. status_code (guion w (enviadas w + j)) = Some 429"
    and "batch_size \<noteq> 0" and "i < length filas"
    and "batch = take batch_size (drop i filas)"
    and "payload = map serializar_fila batch"
    and "w' = snd (bucle_intentos url payload batch 5 0 w)"
  shows "fst (bucle_intentos url payload batch 5 0 w) = Inr ()
       \<and> posts (traza w') = posts (traza w) @ replicate 5 payload
       \<and> bucle_lotes url filas batch_size 5 i w
           = bucle_lotes url filas batch_size 5 (i + batch_size) w'
       \<and> (i + batch_size < length filas \<longrightarrow>
            (\<exists>evs. traza (snd (bucle_lotes url filas batch_size 5 i w))
                   = traza w' @ Post url (map serializar_fila
                                   (take batch_size (drop (i + batch_size) filas))) # evs))
       \<and> (fst (bucle_lotes url filas batch_size 5 i w) = Inr () \<longrightarrow>
            (\<forall>j. i + batch_size * j < length filas \<longrightarrow>
               Post url (map serializar_fila (take batch_size (drop (i + batch_size * j) filas)))
                 \<in> set (traza (snd (bucle_lotes url filas batch_size 5 i w)))))"
proof -
  let ?w5 = "w\<lparr>enviadas := enviadas w + 5,
               traza := traza w @ concat (map (\<lambda>j. eventos_429 url payload (0 + j)) [0..<5])\<rparr>"
  have s0: "bucle_intentos url payload batch 5 0 w = bucle_intentos url payload batch 5 (0 + 5) ?w5"
    by (rule bucle_intentos_429s) (use assms(1) in simp_all)
  have r: "bucle_intentos url payload batch 5 0 w = (Inr (), ?w5)"
    by (simp only: s0) (simp add: bucle_intentos_fin)
  have w': "w' = ?w5" by (simp add: assms(6) r)
  have a: "fst (bucle_intentos url payload batch 5 0 w) = Inr ()" by (simp add: r)
  have b: "posts (traza w') = posts (traza w) @ replicate 5 payload"
    by (simp add: w' posts_append eventos_429_def upt_rec numeral_eq_Suc)
  have c: "bucle_lotes url filas batch_size 5 i w
           = bucle_lotes url filas batch_size 5 (i + batch_size) w'"
    using r assms(2-5) by (simp add: bucle_lotes_paso w')
  have d: "i + batch_size < length filas \<longrightarrow>
            (\<exists>evs. traza (snd (bucle_lotes url filas batch_size 5 i w))
                   = traza w' @ Post url (map serializar_fila
                                   (take batch_size (drop (i + batch_size) filas))) # evs)"
  proof
    assume "i + batch_size < length filas"
    from bucle_lotes_primer_post [OF assms(2) this, of 5 url w']
    show "\<exists>evs. traza (snd (bucle_lotes url filas batch_size 5 i w))
                   = traza w' @ Post url (map serializar_fila
                                   (take batch_size (drop (i + batch_size) filas))) # evs"
      by (simp add: c)
  qed
  have e: "fst (bucle_lotes url filas batch_size 5 i w) = Inr () \<longrightarrow>
            (\<forall>j. i + batch_size * j < length filas \<longrightarrow>
               Post url (map serializar_fila (take batch_size (drop (i + batch_size * j) filas)))
                 \<in> set (traza (snd (bucle_lotes url filas batch_size 5 i w))))"
    using bucle_lotes_todos_enviados [of url filas batch_size 5 i w] assms(2) by simp
  show ?thesis using a b c d e by blast
qed

theorem bucle_lotes_lote_abandonado_witness:
  "fst (insertar_filas_en_bloques ''d'' ''t'' filas_12 10 5 (mundo_inicial (guion_429_hasta 5)))
     = Inr ()
   \<and> posts (traza (snd (insertar_filas_en_bloques ''d'' ''t'' filas_12 10 5
                          (mundo_inicial (guion_429_hasta 5)))))
     = replicate 5 (map serializar_fila (take 10 filas_12))
       @ [map serializar_fila (take 10 (drop 10 filas_12))]
   \<and> enviadas (snd (insertar_filas_en_bloques ''d'' ''t'' filas_12 10 5
                          (mundo_inicial (guion_429_hasta 5)))) = 6"
proof -
  let ?w = "mundo_inicial (guion_429_hasta 5)"
  let ?url = "url_rows ''d'' ''t''"
  let ?p = "map serializar_fila (take 10 filas_12)"
  define w' where "w' = snd (bucle_intentos ?url ?p (take 10 filas_12) 5 0 ?w)"
  have h: "\<forall>j<5. status_code (guion ?w (enviadas ?w + j)) = Some 429"
    by (simp add: mundo_inicial_def guion_429_hasta_def status_code_def)
  have w': "w' = ?w\<lparr>enviadas := enviadas ?w + 5,
                    traza := traza ?w @ concat (map (eventos_429 ?url ?p) [0..<5])\<rparr>"
    unfolding w'_def by (simp add: bucle_intentos_agotado [OF h])
  have t: "textos (nombres_de (take 10 (drop 10 filas_12))) = Some [''Bordo'', ''Sin nombre'']"
    by (simp add: filas_12_val nombres_de_def col_nombre_def)
  have s: "status_code (guion w' (enviadas w')) = Some 202"
    by (simp add: w' mundo_inicial_def guion_429_hasta_def status_code_def)
  have fin: "bucle_lotes ?url filas_12 10 5 (0 + 10) w' =
        (Inr (), w'\<lparr>enviadas := Suc (enviadas w'),
                    traza := traza w' @ [Post ?url (map serializar_fila (take 10 (drop 10 filas_12))),
                      Print (Filas_insertadas (length (take 10 (drop 10 filas_12)))
                               (join '', '' [''Bordo'', ''Sin nombre'']))]\<rparr>)"
    using bucle_intentos_202 [of 0 5 w' "take 10 (drop 10 filas_12)" _ ?url
        "map serializar_fila (take 10 (drop 10 filas_12))", OF _ s t]
    by (simp add: bucle_lotes_paso bucle_lotes_fin filas_12_val(1))
  from bucle_lotes_lote_abandonado
      [where w = ?w and batch_size = 10 and i = 0 and filas = filas_12
         and batch = "take 10 filas_12" and payload = ?p and w' = w'
         and url = ?url, OF h]
  have c: "posts (traza w') = posts (traza ?w) @ replicate 5 ?p"
    and d: "bucle_lotes ?url filas_12 10 5 0 ?w = bucle_lotes ?url filas_12 10 5 (0 + 10) w'"
    by (simp_all add: filas_12_val(1) w'_def)
  have e: "enviadas w' = 5" by (simp add: w' mundo_inicial_def)
  have z: "posts (traza ?w) = []" by (simp add: mundo_inicial_def)
  show ?thesis
    unfolding insertar_defecto d fin
    by (simp add: posts_append c z e)
qed

section \<open>Slices of a list\<close>

declare lotes.simps [simp del]

lemma lotes_Nil: "lotes n [] = []"
  by (subst lotes.simps) simp

lemma lotes_paso: "n \<noteq> 0 \<Longrightarrow> xs \<noteq> [] \<Longrightarrow> lotes n xs = take n xs # lotes n (drop n xs)"
  by (subst lotes.simps) simp

lemma concat_lotes: "n \<noteq> 0 \<Longrightarrow> concat (lotes n xs) = xs"
proof (induction n xs rule: lotes.induct)
  case (1 n xs)
  show ?case
  proof (cases "xs = []")
    case True
    then show ?thesis by (simp add: lotes_Nil)
  next
    case False
    with 1 show ?thesis by (simp add: lotes_paso)
  qed
qed

lemma map_length_lotes:
  "n \<noteq> 0 \<Longrightarrow> map length (lotes n xs) =
     replicate (length xs div n) n @ (if length xs mod n = 0 then [] else [length xs mod n])"
proof (induction n xs rule: lotes.induct)
  case (1 n xs)
  show ?case
  proof (cases "xs = []")
    case True
    then show ?thesis by (simp add: lotes_Nil)
  next
    case False
    note ne = this
    have ih: "map length (lotes n (drop n xs)) =
       replicate (length (drop n xs) div n) n
         @ (if length (drop n xs) mod n = 0 then [] else [length (drop n xs) mod n])"
      using 1 ne by simp
    show ?thesis
    proof (cases "length xs < n")
      case True
      then have "drop n xs = []" by simp
      then show ?thesis using True ne "1.prems" by (simp add: lotes_paso lotes_Nil)
    next
      case False
      then have d: "length xs div n = Suc ((length xs - n) div n)"
        using "1.prems" by (simp add: le_div_geq)
      have m: "length xs mod n = (length xs - n) mod n"
        using False by (simp add: le_mod_geq)
      have t: "length (take n xs) = n" using False by simp
      show ?thesis
        using ne "1.prems" ih d m t by (simp add: lotes_paso)
    qed
  qed
qed

lemma ceil_div:
  fixes m n :: nat
  assumes "0 < n"
  shows "(m + n - 1) div n = m div n + (if m mod n = 0 then 0 else 1)"
proof -
  obtain k where k: "n = Suc k" using assms by (cases n) auto
  define q where "q = m div n"
  define r where "r = m mod n"
  have m: "m = r + q * n" by (simp add: q_def r_def)
  have rk: "r \<le> k" using k assms by (simp add: r_def less_Suc_eq_le [symmetric])
  have a: "(m + n - 1) div n = q + (r + k) div n"
  proof -
    have e: "m + n - 1 = (r + k) + q * n" using m k by simp
    have "((r + k) + q * n) div n = q + (r + k) div n"
      by (rule div_mult_self1) (use assms in simp)
    then show ?thesis by (simp only: e)
  qed
  have b: "(r + k) div n = (if r = 0 then 0 else 1)"
  proof (cases "r = 0")
    case True
    then show ?thesis using k by simp
  next
    case False
    then obtain r' where r': "r = Suc r'" by (cases r) auto
    have e: "r + k = r' + 1 * n" using r' k by simp
    have "(r' + 1 * n) div n = 1 + r' div n"
      by (rule div_mult_self1) (use assms in simp)
    then have "(r + k) div n = 1 + r' div n" by (simp only: e)
    moreover have "r' div n = 0" using rk r' k by simp
    ultimately show ?thesis using False by simp
  qed
  show ?thesis using a b by (simp add: q_def r_def)
qed

lemma length_lotes: "n \<noteq> 0 \<Longrightarrow> length (lotes n xs) = (length xs + n - 1) div n"
proof -
  assume n: "n \<noteq> 0"
  have "length (lotes n xs) = length (map length (lotes n xs))" by simp
  also have "\<dots> = length xs div n + (if length xs mod n = 0 then 0 else 1)"
    by (simp add: map_length_lotes [OF n])
  also have "\<dots> = (length xs + n - 1) div n"
    using ceil_div [of n "length xs"] n by simp
  finally show ?thesis .
qed

lemma lotes_tallas:
  assumes "n \<noteq> 0" and "b \<in> set (lotes n xs)"
  shows "0 < length b \<and> length b \<le> n"
proof -
  have "length b \<in> set (map length (lotes n xs))" using assms(2) by simp
  then have "length b \<in> set (replicate (length xs div n) n
       @ (if length xs mod n = 0 then [] else [length xs mod n]))"
    by (simp only: map_length_lotes [OF assms(1)])
  then show ?thesis using assms(1) by (auto split: if_splits simp: less_imp_le)
qed

lemma map_length_lotes_120:
  assumes "length xs = 120"
  shows "map length (lotes 50 xs) = [50, 50, 20]"
proof -
  have "map length (lotes 50 xs) =
     replicate (length xs div 50) 50 @ (if length xs mod 50 = 0 then [] else [length xs mod 50])"
    by (rule map_length_lotes) simp
  then show ?thesis by (simp add: assms numeral_2_eq_2)
qed

section \<open>Purger: one delete request per slice of fifty ids\<close>

lemma bucle_eliminar_fin:
  "\<not> i < length ids \<Longrightarrow> bucle_eliminar url ids i w = (Inr (), w)"
  by (subst bucle_eliminar.simps) simp

lemma bucle_eliminar_paso:
  assumes "i < length ids" and "guion w (enviadas w) = Respuesta st b"
  shows "bucle_eliminar url ids i w =
         bucle_eliminar url ids (i + 50)
           (w\<lparr>enviadas := Suc (enviadas w),
              traza := traza w @
                [Delete url (take 50 (drop i ids)),
                 Print (if st = 202 then Filas_eliminadas (length (take 50 (drop i ids)))
                        else Error_al_eliminar st)]\<rparr>)"
  using assms
  by (subst bucle_eliminar.simps) (simp add: peticion_def imprimir_def Let_def)

lemma bucle_eliminar_lotes:
  assumes "\<forall>k\<ge>enviadas w. guion w k \<noteq> Excepcion"
  shows "fst (bucle_eliminar url ids i w) = Inr ()
       \<and> deletes (traza (snd (bucle_eliminar url ids i w)))
           = deletes (traza w) @ lotes 50 (drop i ids)"
  using assms
proof (induction "length ids - i" arbitrary: i w rule: less_induct)
  case less
  show ?case
  proof (cases "i < length ids")
    case False
    then show ?thesis by (simp add: bucle_eliminar_fin lotes_Nil)
  next
    case True
    obtain st b where r: "guion w (enviadas w) = Respuesta st b"
      using less.prems by (cases "guion w (enviadas w)") auto
    let ?w1 = "w\<lparr>enviadas := Suc (enviadas w),
              traza := traza w @
                [Delete url (take 50 (drop i ids)),
                 Print (if st = 202 then Filas_eliminadas (length (take 50 (drop i ids)))
                        else Error_al_eliminar st)]\<rparr>"
    have paso: "bucle_eliminar url ids i w = bucle_eliminar url ids (i + 50) ?w1"
      by (rule bucle_eliminar_paso [OF True r])
    have m: "length ids - (i + 50) < length ids - i" using True by arith
    have g: "\<forall>k\<ge>enviadas ?w1. guion ?w1 k \<noteq> Excepcion" using less.prems by simp
    have ih: "fst (bucle_eliminar url ids (i + 50) ?w1) = Inr ()
       \<and> deletes (traza (snd (bucle_eliminar url ids (i + 50) ?w1)))
           = deletes (traza ?w1) @ lotes 50 (drop (i + 50) ids)"
      by (rule less.hyps [OF m g])
    have ne: "drop i ids \<noteq> []" using True by simp
    have l: "lotes 50 (drop i ids) = take 50 (drop i ids) # lotes 50 (drop (i + 50) ids)"
      using lotes_paso [of 50 "drop i ids"] ne by (simp add: add.commute)
    show ?thesis using ih by (simp add: paso l deletes_append)
  qed
qed

text \<open>
  C5. Once the listing of the remote table has come back with its rows (a status that
  \<^verbatim>\<open>raise_for_status\<close> lets through) and every later request gets an answer, whatever
  its status, the purger returns normally and the delete requests it has sent are exactly the
  slices of fifty of the listed ids, in order: \<open>\<lceil>N / 50\<rceil>\<close> requests for \<open>N\<close> ids, none
  empty and none over fifty ids, which put end to end give the id list back. For 120 ids
  these are three requests, of 50, 50 and 20 ids.
\<close>

theorem eliminar_todas_las_filas_lotes:
  assumes "guion w (enviadas w) = Respuesta st rows" and "\<not> raise_for_status st"
    and "\<forall>k>enviadas w. guion w k \<noteq> Excepcion"
    and "ids = map item_id rows"
    and "r = eliminar_todas_las_filas doc_id table_id w"
  shows "fst r = Inr ()
       \<and> deletes (traza (snd r)) = deletes (traza w) @ lotes 50 ids
       \<and> length (lotes 50 ids) = (length ids + 49) div 50
       \<and> (\<forall>b \<in> set (lotes 50 ids). 0 < length b \<and> length b \<le> 50)
       \<and> concat (lotes 50 ids) = ids
       \<and> (length ids = 120 \<longrightarrow> map length (lotes 50 ids) = [50, 50, 20])"
proof -
  let ?w1 = "w\<lparr>enviadas := Suc (enviadas w),
               traza := traza w @ [Print Eliminando_filas, Get (url_rows doc_id table_id)]\<rparr>"
  have r: "r = bucle_eliminar (url_rows doc_id table_id) ids 0 ?w1"
    using assms(1,2,4,5)
    by (simp add: eliminar_todas_las_filas_def peticion_def imprimir_def)
  have g: "\<forall>k\<ge>enviadas ?w1. guion ?w1 k \<noteq> Excepcion"
    using assms(3) by (simp add: Suc_le_eq)
  have a: "fst r = Inr () \<and> deletes (traza (snd r)) = deletes (traza w) @ lotes 50 ids"
    using bucle_eliminar_lotes [OF g, of "url_rows doc_id table_id" ids 0]
    by (simp add: r deletes_append)
  have b: "length (lotes 50 ids) = (length ids + 49) div 50"
    using length_lotes [of 50 ids] by simp
  have c: "\<forall>b \<in> set (lotes 50 ids). 0 < length b \<and> length b \<le> 50"
    using lotes_tallas [of 50 _ ids] by simp
  have d: "concat (lotes 50 ids) = ids"
    by (rule concat_lotes) simp
  have e: "length ids = 120 \<longrightarrow> map length (lotes 50 ids) = [50, 50, 20]"
    using map_length_lotes_120 by blast
  show ?thesis using a b c d e by blast
qed

theorem eliminar_todas_las_filas_lotes_witness:
  "fst (eliminar_todas_las_filas ''d'' ''t'' (mundo_inicial (guion_listado items_120))) = Inr ()
   \<and> deletes (traza (snd (eliminar_todas_las_filas ''d'' ''t''
                            (mundo_inicial (guion_listado items_120)))))
       = lotes 50 (map item_id items_120)
   \<and> length (lotes 50 (map item_id items_120)) = 3
   \<and> map length (lotes 50 (map item_id items_120)) = [50, 50, 20]
   \<and> concat (lotes 50 (map item_id items_120)) = map item_id items_120"
proof -
  have len: "length items_120 = 120" by (simp add: items_120_def)
  show ?thesis
    using eliminar_todas_las_filas_lotes
      [where w = "mundo_inicial (guion_listado items_120)" and st = 200 and rows = items_120
         and ids = "map item_id items_120" and doc_id = "''d''" and table_id = "''t''",
       OF _ _ _ refl refl]
    by (simp add: len mundo_inicial_def guion_listado_def raise_for_status_def)
qed

section \<open>Batch inserter: the uploads are the slices of ten rows\<close>

lemma textos_nombres_de:
  "\<forall>f \<in> set batch. nombre_es_texto f \<Longrightarrow> \<exists>ns. textos (nombres_de batch) = Some ns"
proof (induction batch)
  case Nil
  show ?case by (simp add: nombres_de_def)
next
  case (Cons f batch)
  then obtain ns where ns: "textos (nombres_de batch) = Some ns" by auto
  have "nombre_es_texto f" using Cons.prems by simp
  then show ?case using ns
    by (auto simp: nombre_es_texto_def nombres_de_def split: option.splits valor.splits)
qed

lemma bucle_intentos_sin_429:
  assumes "intento < max_reintentos" and "guion w (enviadas w) = Respuesta st b"
    and "st \<noteq> 429" and "textos (nombres_de batch) = Some ns"
  shows "bucle_intentos url payload batch max_reintentos intento w =
         (Inr (), w\<lparr>enviadas := Suc (enviadas w),
                    traza := traza w @
                      [Post url payload,
                       Print (if st = 202 then Filas_insertadas (length batch) (join '', '' ns)
                              else Error_al_insertar st)]\<rparr>)"
proof (cases "st = 202")
  case True
  then show ?thesis
    using bucle_intentos_202 [OF assms(1) _ assms(4), of w url payload] assms(2)
    by (simp add: status_code_Some)
next
  case False
  then show ?thesis
    using bucle_intentos_otro [OF assms(1,2) False assms(3), of url payload batch] by simp
qed

lemma bucle_lotes_sin_429:
  assumes "\<forall>k\<ge>enviadas w. \<exists>st b. guion w k = Respuesta st b \<and> st \<noteq> 429"
    and "\<forall>f \<in> set filas. nombre_es_texto f"
    and "bs \<noteq> 0" and "0 < m"
  shows "fst (bucle_lotes url filas bs m i w) = Inr ()
       \<and> posts (traza (snd (bucle_lotes url filas bs m i w)))
           = posts (traza w) @ map (map serializar_fila) (lotes bs (drop i filas))"
  using assms(1)
proof (induction "length filas - i" arbitrary: i w rule: less_induct)
  case less
  show ?case
  proof (cases "i < length filas")
    case False
    then show ?thesis using assms(3) by (simp add: bucle_lotes_fin lotes_Nil)
  next
    case True
    let ?batch = "take bs (drop i filas)"
    let ?payload = "map serializar_fila ?batch"
    obtain st b where r: "guion w (enviadas w) = Respuesta st b" and st: "st \<noteq> 429"
      using less.prems by blast
    have "\<forall>f \<in> set ?batch. nombre_es_texto f"
      using assms(2) by (meson in_set_takeD in_set_dropD)
    then obtain ns where ns: "textos (nombres_de ?batch) = Some ns"
      using textos_nombres_de by blast
    let ?w1 = "w\<lparr>enviadas := Suc (enviadas w),
                    traza := traza w @
                      [Post url ?payload,
                       Print (if st = 202 then Filas_insertadas (length ?batch) (join '', '' ns)
                              else Error_al_insertar st)]\<rparr>"
    have uno: "bucle_intentos url ?payload ?batch m 0 w = (Inr (), ?w1)"
      by (rule bucle_intentos_sin_429 [OF assms(4) r st ns])
    have paso: "bucle_lotes url filas bs m i w = bucle_lotes url filas bs m (i + bs) ?w1"
      using assms(3) True by (simp add: bucle_lotes_paso uno)
    have me: "length filas - (i + bs) < length filas - i" using True assms(3) by arith
    have g: "\<forall>k\<ge>enviadas ?w1. \<exists>st b. guion ?w1 k = Respuesta st b \<and> st \<noteq> 429"
      using less.prems by simp
    have ih: "fst (bucle_lotes url filas bs m (i + bs) ?w1) = Inr ()
       \<and> posts (traza (snd (bucle_lotes url filas bs m (i + bs) ?w1)))
           = posts (traza ?w1) @ map (map serializar_fila) (lotes bs (drop (i + bs) filas))"
      by (rule less.hyps [OF me g])
    have ne: "drop i filas \<noteq> []" using True by simp
    have l: "lotes bs (drop i filas) = ?batch # lotes bs (drop (i + bs) filas)"
      using lotes_paso [OF assms(3) ne] by (simp add: add.commute)
    show ?thesis using ih by (simp add: paso l posts_append)
  qed
qed

lemma map_length_lotes_25:
  assumes "length xs = 25"
  shows "map length (lotes 10 xs) = [10, 10, 5]"
proof -
  have "map length (lotes 10 xs) =
     replicate (length xs div 10) 10 @ (if length xs mod 10 = 0 then [] else [length xs mod 10])"
    by (rule map_length_lotes) simp
  then show ?thesis by (simp add: assms numeral_2_eq_2)
qed

lemma filas_25_texto: "\<forall>f \<in> set filas_25. nombre_es_texto f"
  by (simp add: filas_25_def nombre_es_texto_def)

lemma bucle_intentos_posts:
  "\<exists>k. k \<le> m - intento \<and> (intento < m \<longrightarrow> 1 \<le> k)
      \<and> posts (traza (snd (bucle_intentos url payload batch m intento w)))
          = posts (traza w) @ replicate k payload"
proof (induction "m - intento" arbitrary: intento w)
  case 0
  then have "\<not> intento < m" by simp
  then show ?case by (simp add: bucle_intentos_fin)
next
  case (Suc d)
  then have lt: "intento < m" by simp
  have uno: "\<And>w'. posts (traza w') = posts (traza w) @ [payload] \<Longrightarrow>
      snd (bucle_intentos url payload batch m intento w) = w' \<Longrightarrow> ?case"
  proof -
    fix w' assume "posts (traza w') = posts (traza w) @ [payload]"
      and "snd (bucle_intentos url payload batch m intento w) = w'"
    then have "Suc 0 \<le> m - intento \<and> (intento < m \<longrightarrow> 1 \<le> Suc 0)
      \<and> posts (traza (snd (bucle_intentos url payload batch m intento w)))
          = posts (traza w) @ replicate (Suc 0) payload"
      using lt by simp
    then show ?case by blast
  qed
  show ?case
  proof (cases "guion w (enviadas w)")
    case Excepcion
    show ?thesis
      by (rule uno [OF _ refl]) (simp add: bucle_intentos_Excepcion [OF lt Excepcion] posts_append)
  next
    case (Respuesta st b)
    consider "st = 202" | "st = 429" | "st \<noteq> 202" "st \<noteq> 429" by blast
    then show ?thesis
    proof cases
      case 1
      show ?thesis
      proof (cases "textos (nombres_de batch)")
        case None
        show ?thesis
          by (rule uno [OF _ refl])
            (use Respuesta 1 None lt in \<open>simp add: bucle_intentos_202_TypeError posts_append\<close>)
      next
        case (Some ns)
        show ?thesis
          by (rule uno [OF _ refl])
            (use Respuesta 1 Some lt in
              \<open>simp add: bucle_intentos_202 status_code_Some posts_append\<close>)
      qed
    next
      case 2
      let ?w1 = "w\<lparr>enviadas := Suc (enviadas w),
              traza := traza w @ [Post url payload, Print (Limite_alcanzado (2 ^ intento)),
                                  Sleep (2 ^ intento)]\<rparr>"
      have st: "bucle_intentos url payload batch m intento w =
                bucle_intentos url payload batch m (Suc intento) ?w1"
        using lt Respuesta 2 by (intro bucle_intentos_429) (simp_all add: status_code_Some)
      have "d = m - Suc intento" using Suc(2) by simp
      from Suc(1) [OF this, of ?w1]
      obtain k where k: "k \<le> m - Suc intento"
        and p: "posts (traza (snd (bucle_intentos url payload batch m (Suc intento) ?w1)))
                = posts (traza ?w1) @ replicate k payload"
        by blast
      have "Suc k \<le> m - intento \<and> (intento < m \<longrightarrow> 1 \<le> Suc k)
        \<and> posts (traza (snd (bucle_intentos url payload batch m intento w)))
            = posts (traza w) @ replicate (Suc k) payload"
        using k lt p by (simp add: st posts_append)
      then show ?thesis by blast
    next
      case 3
      show ?thesis
        by (rule uno [OF _ refl])
          (use Respuesta 3 lt in \<open>simp add: bucle_intentos_otro posts_append\<close>)
    qed
  qed
qed

lemma bucle_lotes_posts:
  assumes "bs \<noteq> 0" and "0 < m"
  shows "\<exists>ks. length ks \<le> length (lotes bs (drop i filas))
      \<and> (\<forall>k \<in> set ks. 1 \<le> k \<and> k \<le> m)
      \<and> posts (traza (snd (bucle_lotes url filas bs m i w)))
          = posts (traza w)
            @ concat (map2 (\<lambda>k b. replicate k (map serializar_fila b)) ks
                        (lotes bs (drop i filas)))
      \<and> (fst (bucle_lotes url filas bs m i w) = Inr ()
           \<longrightarrow> length ks = length (lotes bs (drop i filas)))"
proof (induction "length filas - i" arbitrary: i w rule: less_induct)
  case less
  show ?case
  proof (cases "i < length filas")
    case False
    then have "length [] \<le> length (lotes bs (drop i filas))
      \<and> (\<forall>k \<in> set ([]::nat list). 1 \<le> k \<and> k \<le> m)
      \<and> posts (traza (snd (bucle_lotes url filas bs m i w)))
          = posts (traza w)
            @ concat (map2 (\<lambda>k b. replicate k (map serializar_fila b)) []
                        (lotes bs (drop i filas)))
      \<and> (fst (bucle_lotes url filas bs m i w) = Inr ()
           \<longrightarrow> length ([]::nat list) = length (lotes bs (drop i filas)))"
      by (simp add: bucle_lotes_fin lotes_Nil)
    then show ?thesis by blast
  next
    case True
    let ?batch = "take bs (drop i filas)"
    let ?payload = "map serializar_fila ?batch"
    have ne: "drop i filas \<noteq> []" using True by simp
    have l: "lotes bs (drop i filas) = ?batch # lotes bs (drop (i + bs) filas)"
      using lotes_paso [OF assms(1) ne] by (simp add: add.commute)
    obtain r w1 where r: "bucle_intentos url ?payload ?batch m 0 w = (r, w1)"
      by (cases "bucle_intentos url ?payload ?batch m 0 w")
    obtain k1 where k1: "k1 \<le> m" "1 \<le> k1"
      and p1: "posts (traza w1) = posts (traza w) @ replicate k1 ?payload"
      using bucle_intentos_posts [of m 0 url ?payload ?batch w] r assms(2) by auto
    show ?thesis
    proof (cases r)
      case (Inl e)
      have R: "bucle_lotes url filas bs m i w = (Inl e, w1)"
        using assms(1) True r Inl by (simp add: bucle_lotes_paso)
      have "length [k1] \<le> length (lotes bs (drop i filas))
        \<and> (\<forall>k \<in> set [k1]. 1 \<le> k \<and> k \<le> m)
        \<and> posts (traza (snd (bucle_lotes url filas bs m i w)))
            = posts (traza w)
              @ concat (map2 (\<lambda>k b. replicate k (map serializar_fila b)) [k1]
                          (lotes bs (drop i filas)))
        \<and> (fst (bucle_lotes url filas bs m i w) = Inr ()
             \<longrightarrow> length [k1] = length (lotes bs (drop i filas)))"
        using k1 p1 by (simp add: R l)
      then show ?thesis by blast
    next
      case (Inr u)
      have R: "bucle_lotes url filas bs m i w = bucle_lotes url filas bs m (i + bs) w1"
        using assms(1) True r Inr by (simp add: bucle_lotes_paso)
      have me: "length filas - (i + bs) < length filas - i" using True assms(1) by arith
      from less [OF me, of w1]
      obtain ks where a: "length ks \<le> length (lotes bs (drop (i + bs) filas))"
        and b: "\<forall>k \<in> set ks. 1 \<le> k \<and> k \<le> m"
        and c: "posts (traza (snd (bucle_lotes url filas bs m (i + bs) w1)))
            = posts (traza w1)
              @ concat (map2 (\<lambda>k b. replicate k (map serializar_fila b)) ks
                          (lotes bs (drop (i + bs) filas)))"
        and d: "fst (bucle_lotes url filas bs m (i + bs) w1) = Inr ()
             \<longrightarrow> length ks = length (lotes bs (drop (i + bs) filas))"
        by blast
      have "length (k1 # ks) \<le> length (lotes bs (drop i filas))
        \<and> (\<forall>k \<in> set (k1 # ks). 1 \<le> k \<and> k \<le> m)
        \<and> posts (traza (snd (bucle_lotes url filas bs m i w)))
            = posts (traza w)
              @ concat (map2 (\<lambda>k b. replicate k (map serializar_fila b)) (k1 # ks)
                          (lotes bs (drop i filas)))
        \<and> (fst (bucle_lotes url filas bs m i w) = Inr ()
             \<longrightarrow> length (k1 # ks) = length (lotes bs (drop i filas)))"
        using a b c d k1 p1 by (simp add: R l)
      then show ?thesis by blast
    qed
  qed
qed

lemma posts_tallas:
  assumes "n \<noteq> 0"
  shows "\<forall>p \<in> set (concat (map2 (\<lambda>k b. replicate k (map f b)) ks (lotes n xs))).
           0 < length p \<and> length p \<le> n"
proof
  fix p assume "p \<in> set (concat (map2 (\<lambda>k b. replicate k (map f b)) ks (lotes n xs)))"
  then obtain k b where "(k, b) \<in> set (zip ks (lotes n xs))" and "p \<in> set (replicate k (map f b))"
    by auto
  then have "b \<in> set (lotes n xs)" and "p = map f b"
    by (auto dest: set_zip_rightD)
  then show "0 < length p \<and> length p \<le> n"
    using lotes_tallas [OF assms, of b xs] by simp
qed

text \<open>
  C6. The rows are cut, in order, into slices of ten: \<open>\<lceil>N / 10\<rceil>\<close> slices for \<open>N\<close> rows, none
  empty and none over ten rows, which put end to end give the row sequence back (for 25
  rows: 10, 10 and 5). Whatever the remote side answers, the upload requests of a run are
  these slices, serialised, in order, each slice that is reached being sent between one and
  five times in a row before the next one; so every upload request carries at most ten
  rows, and a run that returns normally has sent every slice. When every upload gets an
  answer other than 429 (and the rows are such that the console line of an accepted batch
  can be built: the name of a row, when present, is a string, as it is for every row the
  orchestrator builds), the run returns normally and each slice is sent exactly once:
  \<open>\<lceil>N / 10\<rceil>\<close> upload requests, three of 10, 10 and 5 rows for 25 rows.
\<close>

theorem insertar_filas_en_bloques_lotes:
  assumes "r = insertar_filas_en_bloques doc_id table_id filas 10 5 w"
  shows "(\<exists>ks. length ks \<le> length (lotes 10 filas)
            \<and> (\<forall>k \<in> set ks. 1 \<le> k \<and> k \<le> 5)
            \<and> posts (traza (snd r))
                = posts (traza w)
                  @ concat (map2 (\<lambda>k b. replicate k (map serializar_fila b)) ks (lotes 10 filas))
            \<and> (\<forall>p \<in> set (concat (map2 (\<lambda>k b. replicate k (map serializar_fila b)) ks
                                      (lotes 10 filas))).
                  0 < length p \<and> length p \<le> 10)
            \<and> (fst r = Inr () \<longrightarrow> length ks = length (lotes 10 filas)))
       \<and> ((\<forall>k\<ge>enviadas w. \<exists>st b. guion w k = Respuesta st b \<and> st \<noteq> 429)
            \<and> (\<forall>f \<in> set filas. nombre_es_texto f)
          \<longrightarrow> fst r = Inr ()
              \<and> posts (traza (snd r))
                  = posts (traza w) @ map (map serializar_fila) (lotes 10 filas))
       \<and> length (lotes 10 filas) = (length filas + 9) div 10
       \<and> (\<forall>b \<in> set (lotes 10 filas). 0 < length b \<and> length b \<le> 10)
       \<and> concat (lotes 10 filas) = filas
       \<and> (length filas = 25 \<longrightarrow> map length (lotes 10 filas) = [10, 10, 5])"
proof -
  have r: "r = bucle_lotes (url_rows doc_id table_id) filas 10 5 0 w"
    by (simp add: assms insertar_defecto)
  obtain ks where k1: "length ks \<le> length (lotes 10 filas)"
    and k2: "\<forall>k \<in> set ks. 1 \<le> k \<and> k \<le> 5"
    and k3: "posts (traza (snd r))
                = posts (traza w)
                  @ concat (map2 (\<lambda>k b. replicate k (map serializar_fila b)) ks (lotes 10 filas))"
    and k4: "fst r = Inr () \<longrightarrow> length ks = length (lotes 10 filas)"
    using bucle_lotes_posts [of 10 5 0 filas "url_rows doc_id table_id" w]
    by (auto simp: r)
  have k5: "\<forall>p \<in> set (concat (map2 (\<lambda>k b. replicate k (map serializar_fila b)) ks
                                      (lotes 10 filas))).
                  0 < length p \<and> length p \<le> 10"
    by (rule posts_tallas) simp
  have g: "\<exists>ks. length ks \<le> length (lotes 10 filas)
            \<and> (\<forall>k \<in> set ks. 1 \<le> k \<and> k \<le> 5)
            \<and> posts (traza (snd r))
                = posts (traza w)
                  @ concat (map2 (\<lambda>k b. replicate k (map serializar_fila b)) ks (lotes 10 filas))
            \<and> (\<forall>p \<in> set (concat (map2 (\<lambda>k b. replicate k (map serializar_fila b)) ks
                                      (lotes 10 filas))).
                  0 < length p \<and> length p \<le> 10)
            \<and> (fst r = Inr () \<longrightarrow> length ks = length (lotes 10 filas))"
    using k1 k2 k3 k4 k5 by blast
  have a: "(\<forall>k\<ge>enviadas w. \<exists>st b. guion w k = Respuesta st b \<and> st \<noteq> 429)
            \<and> (\<forall>f \<in> set filas. nombre_es_texto f)
          \<longrightarrow> fst r = Inr ()
              \<and> posts (traza (snd r))
                  = posts (traza w) @ map (map serializar_fila) (lotes 10 filas)"
  proof
    assume h: "(\<forall>k\<ge>enviadas w. \<exists>st b. guion w k = Respuesta st b \<and> st \<noteq> 429)
            \<and> (\<forall>f \<in> set filas. nombre_es_texto f)"
    then have h1: "\<forall>k\<ge>enviadas w. \<exists>st b. guion w k = Respuesta st b \<and> st \<noteq> 429"
      and h2: "\<forall>f \<in> set filas. nombre_es_texto f" by blast+
    show "fst r = Inr ()
              \<and> posts (traza (snd r))
                  = posts (traza w) @ map (map serializar_fila) (lotes 10 filas)"
      using bucle_lotes_sin_429 [OF h1 h2, of 10 5 "url_rows doc_id table_id" 0]
      by (simp add: r)
  qed
  have b: "length (lotes 10 filas) = (length filas + 9) div 10"
    using length_lotes [of 10 filas] by simp
  have c: "\<forall>b \<in> set (lotes 10 filas). 0 < length b \<and> length b \<le> 10"
    using lotes_tallas [of 10 _ filas] by simp
  have d: "concat (lotes 10 filas) = filas"
    by (rule concat_lotes) simp
  have e: "length filas = 25 \<longrightarrow> map length (lotes 10 filas) = [10, 10, 5]"
    using map_length_lotes_25 by blast
  show ?thesis using g a b c d e by blast
qed

theorem insertar_filas_en_bloques_lotes_witness:
  "fst (insertar_filas_en_bloques ''d'' ''t'' filas_25 10 5 (mundo_inicial (guion_429_hasta 0)))
     = Inr ()
   \<and> posts (traza (snd (insertar_filas_en_bloques ''d'' ''t'' filas_25 10 5
                          (mundo_inicial (guion_429_hasta 0)))))
       = map (map serializar_fila) (lotes 10 filas_25)
   \<and> length (lotes 10 filas_25) = 3
   \<and> map length (lotes 10 filas_25) = [10, 10, 5]
   \<and> concat (lotes 10 filas_25) = filas_25"
proof -
  have len: "length filas_25 = 25" by (simp add: filas_25_def)
  have g: "\<forall>k\<ge>enviadas (mundo_inicial (guion_429_hasta 0)).
             \<exists>st b. guion (mundo_inicial (guion_429_hasta 0)) k = Respuesta st b \<and> st \<noteq> 429"
    by (simp add: mundo_inicial_def guion_429_hasta_def)
  have z: "posts (traza (mundo_inicial (guion_429_hasta 0))) = []"
    by (simp add: mundo_inicial_def)
  from insertar_filas_en_bloques_lotes
      [where w = "mundo_inicial (guion_429_hasta 0)" and filas = filas_25
         and doc_id = "''d''" and table_id = "''t''", OF refl] g filas_25_texto
  have a: "fst (insertar_filas_en_bloques ''d'' ''t'' filas_25 10 5
                  (mundo_inicial (guion_429_hasta 0))) = Inr ()"
    and b: "posts (traza (snd (insertar_filas_en_bloques ''d'' ''t'' filas_25 10 5
                          (mundo_inicial (guion_429_hasta 0)))))
       = posts (traza (mundo_inicial (guion_429_hasta 0)))
         @ map (map serializar_fila) (lotes 10 filas_25)"
    and c: "length (lotes 10 filas_25) = (length filas_25 + 9) div 10"
    and d: "concat (lotes 10 filas_25) = filas_25"
    and e: "length filas_25 = 25 \<longrightarrow> map length (lotes 10 filas_25) = [10, 10, 5]"
    by blast+
  show ?thesis using a b c d e by (simp add: len z)
qed

text \<open>
  Without the condition on the answers the count of requests does not hold. Twenty-five
  rows against a remote side that answers 429 to the first request and 202 to the others
  take four upload requests, of 10, 10, 10 and 5 rows: the first slice is sent twice.
\<close>

theorem insertar_filas_en_bloques_reintento_counterexample:
  "map length (posts (traza (snd (insertar_filas_en_bloques ''d'' ''t'' filas_25 10 5
                                    (mundo_inicial (guion_429_hasta 1))))))
     = [10, 10, 10, 5]
   \<and> length filas_25 = 25
   \<and> length (posts (traza (snd (insertar_filas_en_bloques ''d'' ''t'' filas_25 10 5
                                    (mundo_inicial (guion_429_hasta 1))))))
     \<noteq> (length filas_25 + 9) div 10"
proof -
  let ?url = "url_rows ''d'' ''t''"
  let ?w0 = "mundo_inicial (guion_429_hasta 1)"
  let ?b = "take 10 filas_25"
  let ?p = "map serializar_fila ?b"
  have len: "length filas_25 = 25" by (simp add: filas_25_def)
  obtain ns where ns: "textos (nombres_de ?b) = Some ns"
    using textos_nombres_de [of ?b] filas_25_texto by (meson in_set_takeD)
  let ?w1 = "?w0\<lparr>enviadas := Suc (enviadas ?w0),
              traza := traza ?w0 @ [Post ?url ?p, Print (Limite_alcanzado (2 ^ 0)),
                                  Sleep (2 ^ 0)]\<rparr>"
  let ?w2 = "?w1\<lparr>enviadas := Suc (enviadas ?w1),
              traza := traza ?w1 @
                [Post ?url ?p,
                 Print (if (202::nat) = 202 then Filas_insertadas (length ?b) (join '', '' ns)
                        else Error_al_insertar 202)]\<rparr>"
  have s0: "bucle_intentos ?url ?p ?b 5 0 ?w0 = bucle_intentos ?url ?p ?b 5 (Suc 0) ?w1"
    by (rule bucle_intentos_429)
      (simp_all add: mundo_inicial_def guion_429_hasta_def status_code_def)
  have s1: "bucle_intentos ?url ?p ?b 5 (Suc 0) ?w1 = (Inr (), ?w2)"
    by (rule bucle_intentos_sin_429 [where b = "[]"])
      (simp_all add: mundo_inicial_def guion_429_hasta_def ns)
  have paso: "bucle_lotes ?url filas_25 10 5 0 ?w0 = bucle_lotes ?url filas_25 10 5 (0 + 10) ?w2"
    using s0 s1 by (simp add: bucle_lotes_paso len)
  have g: "\<forall>k\<ge>enviadas ?w2. \<exists>st b. guion ?w2 k = Respuesta st b \<and> st \<noteq> 429"
    by (simp add: mundo_inicial_def guion_429_hasta_def)
  have resto: "posts (traza (snd (bucle_lotes ?url filas_25 10 5 (0 + 10) ?w2)))
           = posts (traza ?w2) @ map (map serializar_fila) (lotes 10 (drop (0 + 10) filas_25))"
    using bucle_lotes_sin_429 [OF g filas_25_texto, of 10 5 ?url "0 + 10"] by simp
  have p2: "posts (traza ?w2) = [?p, ?p]"
    by (simp add: mundo_inicial_def)
  have l15: "map length (lotes 10 (drop (0 + 10) filas_25)) = [10, 5]"
  proof -
    have "map length (lotes 10 (drop (0 + 10) filas_25)) =
       replicate (length (drop (0 + 10) filas_25) div 10) 10
         @ (if length (drop (0 + 10) filas_25) mod 10 = 0 then []
            else [length (drop (0 + 10) filas_25) mod 10])"
      by (rule map_length_lotes) simp
    then show ?thesis by (simp add: len)
  qed
  have todo: "map length (posts (traza (snd (insertar_filas_en_bloques ''d'' ''t'' filas_25 10 5 ?w0))))
       = [10, 10, 10, 5]"
    unfolding insertar_defecto paso resto p2
    using l15 by (simp add: len comp_def)
  have "length (map length (posts (traza (snd (insertar_filas_en_bloques ''d'' ''t'' filas_25 10 5 ?w0)))))
       = 4"
    by (simp only: todo) simp
  then show ?thesis using todo len by simp
qed


end
